theory Spec2Isabelle
  imports Complex_Main "HOL-Library.Word"
begin

unbundle bit_operations_syntax

section \<open>Errors\<close>

text \<open>
  The Python exceptions that the modelled functions can raise.  A function that can raise
  returns \<open>py_error + 'a\<close>, with \<open>Inl\<close> for the exception.
\<close>

datatype py_error = AssertionError | ValueError | ZeroDivisionError | IndexError
  | AttributeError | KeyError

section \<open>Strings: \<open>str.split\<close>, \<open>str.strip\<close>, \<open>str.index\<close>\<close>

text \<open>\<open>text.split(sep)\<close> for a one-character separator: the empty string gives \<open>['']\<close>.\<close>

fun split_on :: "char \<Rightarrow> string \<Rightarrow> string list" where
  "split_on sep [] = [[]]"
| "split_on sep (c # cs) =
     (if c = sep then [] # split_on sep cs
      else (case split_on sep cs of
              [] \<Rightarrow> [[c]]
            | w # ws \<Rightarrow> (c # w) # ws))"

text \<open>
  A character stands for a code point below 256.  These are the ones for which
  \<open>str.isspace\<close> holds, the characters that \<open>str.strip()\<close> removes: the ASCII
  whitespace, the separators 0x1C to 0x1F, NEL (0x85) and the no-break space (0xA0).
\<close>

definition is_space :: "char \<Rightarrow> bool" where
  "is_space c = (c \<in> set [CHR '' '', CHR 0x09, CHR 0x0A, CHR 0x0B, CHR 0x0C, CHR 0x0D,
                           CHR 0x1C, CHR 0x1D, CHR 0x1E, CHR 0x1F, CHR 0x85, CHR 0xA0])"

definition strip :: "string \<Rightarrow> string" where
  "strip s = rev (dropWhile is_space (rev (dropWhile is_space s)))"

text \<open>\<open>s.index(c)\<close>: the first position of \<open>c\<close>; \<open>None\<close> stands for the ValueError.\<close>

fun index_of :: "char \<Rightarrow> string \<Rightarrow> nat option" where
  "index_of c [] = None"
| "index_of c (d # ds) =
     (if d = c then Some 0
      else (case index_of c ds of None \<Rightarrow> None | Some i \<Rightarrow> Some (Suc i)))"

section \<open>\<open>parse_precisions\<close> (rkviewer/forms.py)\<close>

text \<open>
  The source computes \<open>y_prec\<close> as \<open>len(xstr) - ystr.index('.') - 1\<close>: the length is that
  of \<open>xstr\<close>.  The results are Python ints, so the difference can be negative.
\<close>

definition parse_precisions :: "string \<Rightarrow> py_error + (int \<times> int)" where
  "parse_precisions text =
     (let nums = split_on CHR '','' text in
      if length nums \<noteq> 2 then Inl AssertionError
      else
        let xstr = strip (nums ! 0);
            ystr = strip (nums ! 1);
            x_prec = (case index_of CHR ''.'' xstr of
                        Some i \<Rightarrow> int (length xstr) - int i - 1
                      | None \<Rightarrow> 0);
            y_prec = (case index_of CHR ''.'' ystr of
                        Some i \<Rightarrow> int (length xstr) - int i - 1
                      | None \<Rightarrow> 0)
        in Inr (x_prec, y_prec))"

section \<open>The arrow designer's grid snap (plugins/arrow_designer.py)\<close>










section \<open>Geometry values used by the forms\<close>

text \<open>
  Python floats are modelled as real numbers: finite values with exact arithmetic (no NaN,
  no infinities, no rounding).  Division raises ZeroDivisionError on a zero denominator.
\<close>

definition py_div :: "real \<Rightarrow> real \<Rightarrow> py_error + real" where
  "py_div a b = (if b = 0 then Inl ZeroDivisionError else Inr (a / b))"

text \<open>\<open>int(x)\<close> on a float truncates towards zero.\<close>

definition py_int :: "real \<Rightarrow> int" where
  "py_int v = (if 0 \<le> v then \<lfloor>v\<rfloor> else \<lceil>v\<rceil>)"

text \<open>
  Modelled from the spec: the classes \<open>Vec2\<close> and \<open>Rect\<close> of rkviewer/canvas/geometry.py,
  which is not among the sources ("rectangle/vector primitives, element-wise
  scale/divide"): a pair of numbers with component-wise \<open>+\<close>, \<open>-\<close>, \<open>elem_mul\<close>
  and \<open>elem_div\<close>, and a rectangle given by its top-left position and its size.
\<close>

datatype vec2 = Vec2 (vx: real) (vy: real)

datatype rect = Rect (rpos: vec2) (rsize: vec2)

definition vec_add :: "vec2 \<Rightarrow> vec2 \<Rightarrow> vec2" where
  "vec_add a b = Vec2 (vx a + vx b) (vy a + vy b)"

definition vec_sub :: "vec2 \<Rightarrow> vec2 \<Rightarrow> vec2" where
  "vec_sub a b = Vec2 (vx a - vx b) (vy a - vy b)"

definition elem_mul :: "vec2 \<Rightarrow> vec2 \<Rightarrow> vec2" where
  "elem_mul a b = Vec2 (vx a * vx b) (vy a * vy b)"

definition elem_div :: "vec2 \<Rightarrow> vec2 \<Rightarrow> py_error + vec2" where
  "elem_div a b =
     (case py_div (vx a) (vx b) of
        Inl e \<Rightarrow> Inl e
      | Inr qx \<Rightarrow> (case py_div (vy a) (vy b) of
                    Inl e \<Rightarrow> Inl e
                  | Inr qy \<Rightarrow> Inr (Vec2 qx qy)))"

section \<open>Colours\<close>

text \<open>
  \<open>wx.Colour\<close>: four 8-bit channels.  \<open>GetRGB\<close> packs red, green and blue into the low
  24 bits of a 32-bit value, \<open>GetRGBA\<close> adds alpha as the top byte; \<open>SetRGB\<close> sets the
  three channels and makes the colour opaque, \<open>SetRGBA\<close> sets all four.
\<close>

record colour =
  Red :: "8 word"
  Green :: "8 word"
  Blue :: "8 word"
  Alpha :: "8 word"

definition BLACK :: colour where
  "BLACK = \<lparr>Red = 0, Green = 0, Blue = 0, Alpha = 255\<rparr>"

definition GetRGB :: "colour \<Rightarrow> 32 word" where
  "GetRGB c = ucast (Red c) OR push_bit 8 (ucast (Green c)) OR push_bit 16 (ucast (Blue c))"

definition GetRGBA :: "colour \<Rightarrow> 32 word" where
  "GetRGBA c = GetRGB c OR push_bit 24 (ucast (Alpha c))"

definition SetRGB :: "colour \<Rightarrow> 32 word \<Rightarrow> colour" where
  "SetRGB c v = \<lparr>Red = ucast v, Green = ucast (drop_bit 8 v), Blue = ucast (drop_bit 16 v),
                 Alpha = 255\<rparr>"

definition SetRGBA :: "colour \<Rightarrow> 32 word \<Rightarrow> colour" where
  "SetRGBA c v = \<lparr>Red = ucast v, Green = ucast (drop_bit 8 v), Blue = ucast (drop_bit 16 v),
                  Alpha = ucast (drop_bit 24 v)\<rparr>"

section \<open>Aggregation helpers of \<open>EditPanelForm\<close> (rkviewer/forms.py)\<close>

text \<open>
  \<open>_GetMultiColor\<close>.  \<open>on_msw()\<close> (rkviewer/utils.py) tells whether the platform needs a
  separate alpha field; it is a parameter here.  \<open>next(iter(s))\<close> on a set with one
  element is that element.
\<close>

definition GetMultiColor :: "bool \<Rightarrow> colour list \<Rightarrow> colour \<times> 8 word option" where
  "GetMultiColor on_msw colors =
     (if on_msw then
        let rgbset = GetRGB ` set colors;
            rgb = (if card rgbset = 1 then SetRGB BLACK (the_elem rgbset) else BLACK);
            alphaset = Alpha ` set colors;
            alpha = (if card alphaset = 1 then Some (the_elem alphaset) else None)
        in (rgb, alpha)
      else
        let rgbaset = GetRGBA ` set colors;
            rgba = (if card rgbaset = 1 then SetRGBA BLACK (the_elem rgbaset) else BLACK)
        in (rgba, None))"

text \<open>
  \<open>_GetMultiFloatText\<close> and \<open>_AlphaToText\<close>.  \<open>no_rzeros\<close> (rkviewer/utils.py) is not
  among the sources; it is a parameter here.  The values are a Python set of floats: its
  elements are compared as they are, without rounding.
\<close>

definition GetMultiFloatText :: "(real \<Rightarrow> nat \<Rightarrow> string) \<Rightarrow> real set \<Rightarrow> nat \<Rightarrow> string" where
  "GetMultiFloatText no_rzeros values precision =
     (if card values = 1 then no_rzeros (the_elem values) precision else ''?'')"

definition AlphaToText :: "(real \<Rightarrow> nat \<Rightarrow> string) \<Rightarrow> 8 word option \<Rightarrow> nat \<Rightarrow> string" where
  "AlphaToText no_rzeros alpha prec =
     (case alpha of
        None \<Rightarrow> ''?''
      | Some a \<Rightarrow> no_rzeros (real (unat a) / 255) prec)"

text \<open>
  The claim about \<open>_GetMultiFloatText\<close> speaks of values equal after rounding to the
  decimal precision \<open>P\<close>; this is that rounding, in the claim's words.
\<close>

definition spec_round_to :: "nat \<Rightarrow> real \<Rightarrow> real" where
  "spec_round_to P v = real_of_int (round (v * 10 ^ P)) / 10 ^ P"

text \<open>
  Modelled from the spec: \<open>no_rzeros\<close> of rkviewer/utils.py, which is not among the
  sources ("numeric-to-text formatting strips trailing zeros beyond the configured
  precision"): the number in fixed-point notation with \<open>P\<close> decimals, without the
  trailing zeros of its fraction and without a trailing decimal point.
\<close>

fun digits_of :: "nat \<Rightarrow> nat \<Rightarrow> string" where
  "digits_of 0 n = []"
| "digits_of (Suc k) n = digits_of k (n div 10) @ [char_of (48 + n mod 10)]"

fun nat_digits :: "nat \<Rightarrow> nat \<Rightarrow> string" where
  "nat_digits 0 n = []"
| "nat_digits (Suc k) n = (if n < 10 then [char_of (48 + n)]
                           else nat_digits k (n div 10) @ [char_of (48 + n mod 10)])"

definition rstrip_char :: "char \<Rightarrow> string \<Rightarrow> string" where
  "rstrip_char c s = rev (dropWhile (\<lambda>d. d = c) (rev s))"

definition spec_no_rzeros :: "real \<Rightarrow> nat \<Rightarrow> string" where
  "spec_no_rzeros num P =
     (let n = nat (round (\<bar>num\<bar> * 10 ^ P));
          ip = n div 10 ^ P;
          fp = n mod 10 ^ P;
          sign = (if num < 0 then [CHR ''-''] else []);
          whole = sign @ nat_digits (Suc ip) ip
      in if P = 0 then whole
         else rstrip_char CHR ''.'' (rstrip_char CHR ''0'' (whole @ [CHR ''.''] @ digits_of P fp)))"

section \<open>The node form (rkviewer/forms.py, \<open>EditPanelForm\<close> and \<open>NodeForm\<close>)\<close>

record node =
  index :: int
  node_id :: string  \<comment> \<open>\<open>id_\<close>\<close>
  position :: vec2
  node_size :: vec2  \<comment> \<open>\<open>size\<close>\<close>
  fill_color :: colour
  border_color :: colour
  border_width :: real

text \<open>
  The Controller is an interface (rkviewer/mvc.py); what the form does to it is the
  sequence of calls it makes, recorded in order.  The first argument of every mutation
  is the network index, the second the index of the node, reaction or compartment.  The
  read accessors of the Controller change nothing and are not recorded.
\<close>

datatype call =
    start_group
  | end_group
  | rename_node int int string
  | move_node int int vec2
  | set_node_size int int vec2
  | set_node_fill_rgb int int colour
  | set_node_fill_alpha int int int
  | set_node_border_rgb int int colour
  | set_node_border_alpha int int int
  | set_node_border_width int int real
  | rename_reaction int int string
  | set_reaction_ratelaw int int string
  | set_reaction_line_thickness int int real
  | set_reaction_fill_rgb int int colour
  | set_reaction_fill_alpha int int int
  | set_src_node_stoich int int int real
  | set_dest_node_stoich int int int real
  | rename_compartment int int string

text \<open>\<open>DidMoveNodesEvent(nodes, offset, dragged)\<close>, as posted by \<open>post_event\<close>.\<close>

datatype event = DidMoveNodesEvent "node list" vec2 bool

text \<open>
  The controls of the forms that have a validation badge, and the messages of the
  badges.  A reaction form has one stoichiometry control for each reactant and each
  product, named here by the index of the node.
\<close>

datatype control = id_ctrl | pos_ctrl | size_ctrl | fill_alpha_ctrl | border_alpha_ctrl
  | border_width_ctrl | ratelaw_ctrl | stroke_width_ctrl
  | reactant_stoich_ctrl int | product_stoich_ctrl int

datatype message =
    Msg_none  \<comment> \<open>the default, empty message\<close>
  | Msg_empty_id  \<comment> \<open>"ID cannot be empty"\<close>
  | Msg_duplicate_id  \<comment> \<open>"Not saved: Duplicate ID"\<close>
  | Msg_pos_form  \<comment> \<open>'Should be in the form "X, Y"'\<close>
  | Msg_pos_negative  \<comment> \<open>"Position coordinates should be non-negative"\<close>
  | Msg_size_form  \<comment> \<open>'Should be in the form "width, height"'\<close>
  | Msg_node_size real real  \<comment> \<open>"Node size needs to be at least (w, h)"\<close>
  | Msg_bounding_size vec2  \<comment> \<open>"Size of bounding box needs to be at least (w, h)"\<close>
  | Msg_not_number  \<comment> \<open>"Value must be a number"\<close>
  | Msg_range "real option" "real option" bool bool  \<comment> \<open>the three range messages\<close>

text \<open>
  The state that every form has from its base class \<open>EditPanelForm\<close>.
  \<open>badges c = Some m\<close>: the badge of control \<open>c\<close> is shown with tooltip \<open>m\<close>;
  \<open>None\<close>: it is hidden.  \<open>calls\<close> are the calls made to the Controller so far.
  \<open>update_all_calls\<close> counts the invocations of \<open>UpdateAllFields\<close>; the texts that it
  writes into the controls are not modelled.
\<close>

record editpanel =
  net_index :: int
  selected_idx :: "int set"  \<comment> \<open>\<open>_selected_idx\<close>\<close>
  self_changes :: bool  \<comment> \<open>\<open>_self_changes\<close>\<close>
  badges :: "control \<Rightarrow> message option"
  calls :: "call list"
  update_all_calls :: nat

text \<open>The three forms: \<open>NodeForm\<close>, \<open>ReactionForm\<close> and \<open>CompartmentForm\<close>.\<close>

record nodeform = editpanel +
  nodes :: "node list"  \<comment> \<open>\<open>_nodes\<close>\<close>
  bounding_rect :: "rect option"  \<comment> \<open>\<open>_bounding_rect\<close>\<close>
  posted :: "event list"  \<comment> \<open>the events posted with \<open>post_event\<close>\<close>

record reaction =
  rxn_index :: int  \<comment> \<open>\<open>index\<close>\<close>
  rxn_id :: string  \<comment> \<open>\<open>id_\<close>\<close>
  rxn_fill_color :: colour  \<comment> \<open>\<open>fill_color\<close>\<close>
  rxn_thickness :: real  \<comment> \<open>\<open>thickness\<close>\<close>
  rxn_rate_law :: string  \<comment> \<open>\<open>rate_law\<close>\<close>

record reactionform = editpanel +
  reactions :: "reaction list"  \<comment> \<open>\<open>_reactions\<close>\<close>

record compartment =
  comp_index :: int  \<comment> \<open>\<open>index\<close>\<close>
  comp_id :: string  \<comment> \<open>\<open>id_\<close>\<close>

record compartmentform = editpanel +
  compartments :: "compartment list"  \<comment> \<open>\<open>_compartments\<close>\<close>

text \<open>
  What the form reads from its surroundings: the platform test \<open>on_msw()\<close>, the canvas
  size \<open>canvas.realsize\<close>, the settings \<open>min_node_width\<close> and \<open>min_node_height\<close>,
  Python's \<open>float\<close> on a string (\<open>None\<close> for the ValueError), and the functions
  \<open>clamp_rect_pos\<close>, \<open>clamp_rect_size\<close> and \<open>get_bounding_rect\<close> of
  rkviewer/canvas/geometry.py, which is not among the sources.  All are parameters.
\<close>

record env =
  on_msw :: bool
  realsize :: vec2
  min_node_width :: real
  min_node_height :: real
  py_float :: "string \<Rightarrow> real option"
  clamp_rect_pos :: "rect \<Rightarrow> rect \<Rightarrow> vec2"
  clamp_rect_size :: "rect \<Rightarrow> vec2 \<Rightarrow> vec2"
  get_bounding_rect :: "rect list \<Rightarrow> rect"

text \<open>
  A handler returns normally or raises; in both cases the form is left in some state.
\<close>

datatype 'a outcome = Returned 'a | Raised py_error 'a

definition state_of :: "'a outcome \<Rightarrow> 'a" where
  "state_of r = (case r of Returned s \<Rightarrow> s | Raised e s \<Rightarrow> s)"

definition returned :: "'a outcome \<Rightarrow> bool" where
  "returned r = (case r of Returned s \<Rightarrow> True | Raised e s \<Rightarrow> False)"

definition parse_num_pair :: "(string \<Rightarrow> real option) \<Rightarrow> string \<Rightarrow> (real \<times> real) option" where
  "parse_num_pair float_of text =
     (let nums = split_on CHR '','' text in
      if length nums \<noteq> 2 then None
      else (case float_of (nums ! 0) of
              None \<Rightarrow> None
            | Some x \<Rightarrow> (case float_of (nums ! 1) of
                          None \<Rightarrow> None
                        | Some y \<Rightarrow> Some (x, y))))"

text \<open>
  Modelled from the spec: \<open>get_nodes_by_idx\<close> of rkviewer/canvas/utils.py, which is not
  among the sources: the nodes whose index is in the selection ("Selection: a set of
  entity indices"), in the order of the node list, as \<open>ReactionForm\<close> selects its
  reactions with \<open>[r for r in self._reactions if r.index in self._selected_idx]\<close>.
\<close>

definition get_nodes_by_idx :: "node list \<Rightarrow> int set \<Rightarrow> node list" where
  "get_nodes_by_idx ns idx = filter (\<lambda>n. index n \<in> idx) ns"

definition SetValidationState ::
  "bool \<Rightarrow> control \<Rightarrow> message \<Rightarrow> 'a editpanel_scheme \<Rightarrow> 'a editpanel_scheme" where
  "SetValidationState good c msg s =
     s\<lparr>badges := (badges s)(c := (if good then None else Some msg))\<rparr>"

definition controller_calls :: "call list \<Rightarrow> 'a editpanel_scheme \<Rightarrow> 'a editpanel_scheme" where
  "controller_calls cs s = s\<lparr>calls := calls s @ cs\<rparr>"

definition post_event :: "event \<Rightarrow> nodeform \<Rightarrow> nodeform" where
  "post_event e s = s\<lparr>posted := posted s @ [e]\<rparr>"

text \<open>
  \<open>NodeForm.UpdateAllFields\<close>: the flag is cleared first; the assertion, the unpacking
  \<open>[node] = nodes\<close> and the bounding rectangle follow.
\<close>

definition UpdateAllFields :: "env \<Rightarrow> nodeform \<Rightarrow> nodeform outcome" where
  "UpdateAllFields E s =
     (let s1 = s\<lparr>self_changes := False, update_all_calls := Suc (update_all_calls s)\<rparr> in
      if selected_idx s1 = {} then Raised AssertionError s1
      else
        let ns = get_nodes_by_idx (nodes s1) (selected_idx s1) in
        if card (selected_idx s1) = 1 then
          (if length ns = 1 then Returned s1 else Raised ValueError s1)
        else
          Returned (s1\<lparr>bounding_rect :=
            Some (get_bounding_rect E (map (\<lambda>n. Rect (position n) (node_size n)) ns))\<rparr>))"

text \<open>
  \<open>EditPanelForm.Update\<close>, the same for the three forms; its first argument is the
  \<open>UpdateAllFields\<close> of the form, which the base class leaves abstract.
\<close>

definition Update ::
  "('a editpanel_scheme \<Rightarrow> 'a editpanel_scheme outcome) \<Rightarrow> 'a editpanel_scheme
   \<Rightarrow> 'a editpanel_scheme outcome" where
  "Update update_all_fields s =
     (let r = (if selected_idx s \<noteq> {} \<and> \<not> self_changes s
               then update_all_fields s else Returned s)
      in case r of
           Raised e s1 \<Rightarrow> Raised e s1
         | Returned s1 \<Rightarrow> Returned (s1\<lparr>badges := (\<lambda>c. None), self_changes := False\<rparr>))"

text \<open>\<open>NodeForm._OnIdText\<close>; the last argument is what \<open>controller.rename_node\<close> returns.\<close>

definition OnIdText :: "nodeform \<Rightarrow> string \<Rightarrow> bool \<Rightarrow> nodeform outcome" where
  "OnIdText s new_id rename_ok =
     (if card (selected_idx s) \<noteq> 1 then Raised AssertionError s
      else
        let nodei = the_elem (selected_idx s) in
        if length new_id = 0 then Returned (SetValidationState False id_ctrl Msg_empty_id s)
        else if new_id \<in> set (map node_id (nodes s))
        then Returned (SetValidationState False id_ctrl Msg_duplicate_id s)
        else
          let s1 = controller_calls [rename_node (net_index s) nodei new_id]
                     (s\<lparr>self_changes := True\<rparr>)
          in if \<not> rename_ok then Raised AssertionError s1
             else Returned (SetValidationState True id_ctrl Msg_none s1))"

text \<open>
  \<open>NodeForm._OnPosText\<close>.  The selected nodes are objects shared with \<open>_nodes\<close>, so an
  assignment to \<open>node.position\<close> changes the node list of the form.
\<close>

definition move_selected :: "(node \<Rightarrow> vec2) \<Rightarrow> nodeform \<Rightarrow> nodeform" where
  "move_selected f s =
     s\<lparr>nodes := map (\<lambda>n. if index n \<in> selected_idx s then n\<lparr>position := f n\<rparr> else n)
                     (nodes s)\<rparr>"

definition OnPosText :: "env \<Rightarrow> nodeform \<Rightarrow> string \<Rightarrow> nodeform outcome" where
  "OnPosText E s text =
     (case parse_num_pair (py_float E) text of
        None \<Rightarrow> Returned (SetValidationState False pos_ctrl Msg_pos_form s)
      | Some xy \<Rightarrow>
          let pos = Vec2 (fst xy) (snd xy) in
          if vx pos < 0 \<or> vy pos < 0
          then Returned (SetValidationState False pos_ctrl Msg_pos_negative s)
          else
            let ns = get_nodes_by_idx (nodes s) (selected_idx s);
                bounds = Rect (Vec2 0 0) (realsize E)
            in
            if length ns = 1 then
              let n = hd ns;
                  clamped = clamp_rect_pos E (Rect pos (node_size n)) bounds
              in
              if position n \<noteq> clamped \<or> pos \<noteq> clamped then
                let s1 = move_selected (\<lambda>n. clamped) (s\<lparr>self_changes := True\<rparr>);
                    ns1 = get_nodes_by_idx (nodes s1) (selected_idx s1);
                    n1 = hd ns1;
                    s2 = controller_calls [start_group] s1;
                    s3 = post_event (DidMoveNodesEvent ns1 (vec_sub clamped (position n1)) False) s2;
                    s4 = controller_calls
                           [move_node (net_index s) (index n1) (position n1), end_group] s3
                in Returned (SetValidationState True pos_ctrl Msg_none s4)
              else Returned (SetValidationState True pos_ctrl Msg_none s)
            else
              (case bounding_rect s of
                 None \<Rightarrow> Raised AttributeError s
               | Some br \<Rightarrow>
                   let clamped = clamp_rect_pos E (Rect pos (rsize br)) bounds in
                   if rpos br \<noteq> pos \<or> pos \<noteq> clamped then
                     let offset = vec_sub clamped (rpos br);
                         s1 = controller_calls [start_group] (s\<lparr>self_changes := True\<rparr>);
                         s2 = move_selected (\<lambda>n. vec_add (position n) offset) s1;
                         ns2 = get_nodes_by_idx (nodes s2) (selected_idx s2);
                         s3 = post_event (DidMoveNodesEvent ns2 offset False) s2;
                         s4 = controller_calls
                                (map (\<lambda>n. move_node (net_index s) (index n) (position n)) ns2
                                 @ [end_group]) s3
                     in Returned (SetValidationState True pos_ctrl Msg_none s4)
                   else Returned (SetValidationState True pos_ctrl Msg_none s)))"

text \<open>\<open>min\<close> over a generator: ValueError when there is nothing to take the minimum of.\<close>

definition py_min :: "real list \<Rightarrow> py_error + real" where
  "py_min xs = (case xs of [] \<Rightarrow> Inl ValueError | x # ys \<Rightarrow> Inr (fold min ys x))"

text \<open>
  \<open>NodeForm._OnSizeText\<close>.  In the branch for several nodes the two minima and the two
  divisions come first, then the bounding rectangle is read.
\<close>

definition resize_calls :: "int \<Rightarrow> rect \<Rightarrow> vec2 \<Rightarrow> node \<Rightarrow> call list" where
  "resize_calls net br ratio n =
     (let rel_pos = vec_sub (position n) (rpos br);
          new_pos = vec_add (rpos br) (elem_mul rel_pos ratio)
      in [move_node net (index n) new_pos,
          set_node_size net (index n) (elem_mul (node_size n) ratio)])"

definition OnSizeText :: "env \<Rightarrow> nodeform \<Rightarrow> string \<Rightarrow> nodeform outcome" where
  "OnSizeText E s text =
     (case parse_num_pair (py_float E) text of
        None \<Rightarrow> Returned (SetValidationState False size_ctrl Msg_size_form s)
      | Some wh \<Rightarrow>
          let ns = get_nodes_by_idx (nodes s) (selected_idx s);
              min_width = min_node_width E;
              min_height = min_node_height E;
              sz = Vec2 (fst wh) (snd wh)
          in
          if length ns = 1 then
            let n = hd ns in
            if vx sz < min_width \<or> vy sz < min_height
            then Returned (SetValidationState False size_ctrl
                             (Msg_node_size min_width min_height) s)
            else
              let clamped = clamp_rect_size E (Rect (position n) sz) (realsize E) in
              if node_size n \<noteq> clamped \<or> sz \<noteq> clamped then
                Returned (SetValidationState True size_ctrl Msg_none
                  (controller_calls
                     [set_node_size (net_index s) (index n) (Vec2 (vx clamped) (vy clamped))]
                     (s\<lparr>self_changes := True\<rparr>)))
              else Returned (SetValidationState True size_ctrl Msg_none s)
          else
            (case py_min (map (\<lambda>n. vx (node_size n)) ns) of
               Inl e \<Rightarrow> Raised e s
             | Inr min_nw \<Rightarrow>
            (case py_min (map (\<lambda>n. vy (node_size n)) ns) of
               Inl e \<Rightarrow> Raised e s
             | Inr min_nh \<Rightarrow>
            (case py_div min_width min_nw of
               Inl e \<Rightarrow> Raised e s
             | Inr rx \<Rightarrow>
            (case py_div min_height min_nh of
               Inl e \<Rightarrow> Raised e s
             | Inr ry \<Rightarrow>
            (case bounding_rect s of
               None \<Rightarrow> Raised AttributeError s
             | Some br \<Rightarrow>
                 let min_ratio = Vec2 rx ry;
                     limit = elem_mul (rsize br) min_ratio
                 in
                 if vx sz < vx limit \<or> vy sz < vy limit
                 then Returned (SetValidationState False size_ctrl (Msg_bounding_size limit) s)
                 else
                   let clamped = clamp_rect_size E (Rect (rpos br) sz) (realsize E) in
                   if rsize br \<noteq> clamped \<or> sz \<noteq> clamped then
                     (case elem_div clamped (rsize br) of
                        Inl e \<Rightarrow> Raised e s
                      | Inr ratio \<Rightarrow>
                          Returned (SetValidationState True size_ctrl Msg_none
                            (controller_calls
                               ([start_group]
                                @ concat (map (resize_calls (net_index s) br ratio) ns)
                                @ [end_group])
                               (s\<lparr>self_changes := True\<rparr>))))
                   else Returned (SetValidationState True size_ctrl Msg_none s)))))))"

text \<open>
  The colour, opacity and border-width handlers of \<open>NodeForm\<close>.  In
  \<open>_OnBorderColorChanged\<close> the branch for the other platforms reads \<open>self.net_idnex\<close>,
  an attribute that does not exist: the first selected node raises AttributeError there,
  after \<open>start_group\<close>.
\<close>

definition OnFillColorChanged :: "env \<Rightarrow> nodeform \<Rightarrow> colour \<Rightarrow> nodeform outcome" where
  "OnFillColorChanged E s fill =
     (let ns = get_nodes_by_idx (nodes s) (selected_idx s);
          per_node = (\<lambda>n. if on_msw E
                           then [set_node_fill_rgb (net_index s) (index n) fill]
                           else [set_node_fill_rgb (net_index s) (index n) fill,
                                 set_node_fill_alpha (net_index s) (index n) (uint (Alpha fill))])
      in Returned (controller_calls ([start_group] @ concat (map per_node ns) @ [end_group])
                     (s\<lparr>self_changes := True\<rparr>)))"

definition OnBorderColorChanged :: "env \<Rightarrow> nodeform \<Rightarrow> colour \<Rightarrow> nodeform outcome" where
  "OnBorderColorChanged E s border =
     (let ns = get_nodes_by_idx (nodes s) (selected_idx s);
          s1 = controller_calls [start_group] (s\<lparr>self_changes := True\<rparr>)
      in if on_msw E
         then Returned (controller_calls
                (map (\<lambda>n. set_node_border_rgb (net_index s) (index n) border) ns
                 @ [end_group]) s1)
         else if ns = [] then Returned (controller_calls [end_group] s1)
         else Raised AttributeError s1)"

definition FillAlphaCallback :: "nodeform \<Rightarrow> real \<Rightarrow> nodeform outcome" where
  "FillAlphaCallback s a =
     (let ns = get_nodes_by_idx (nodes s) (selected_idx s)
      in Returned (controller_calls
           ([start_group]
            @ map (\<lambda>n. set_node_fill_alpha (net_index s) (index n) (py_int (a * 255))) ns
            @ [end_group])
           (s\<lparr>self_changes := True\<rparr>)))"

definition BorderAlphaCallback :: "nodeform \<Rightarrow> real \<Rightarrow> nodeform outcome" where
  "BorderAlphaCallback s a =
     (let ns = get_nodes_by_idx (nodes s) (selected_idx s)
      in Returned (controller_calls
           ([start_group]
            @ map (\<lambda>n. set_node_border_alpha (net_index s) (index n) (py_int (a * 255))) ns
            @ [end_group])
           (s\<lparr>self_changes := True\<rparr>)))"

definition BorderWidthCallback :: "nodeform \<Rightarrow> real \<Rightarrow> nodeform outcome" where
  "BorderWidthCallback s width =
     (let ns = get_nodes_by_idx (nodes s) (selected_idx s)
      in Returned (controller_calls
           ([start_group]
            @ map (\<lambda>n. set_node_border_width (net_index s) (index n) width) ns
            @ [end_group])
           (s\<lparr>self_changes := True\<rparr>)))"

text \<open>
  \<open>_MakeFloatCtrlFunction\<close>: the validation function of a text control that takes a
  float in a range, and the three controls of the node form that are bound to one.
\<close>

definition float_ctrl_fn ::
  "(string \<Rightarrow> real option) \<Rightarrow> control \<Rightarrow> real option \<Rightarrow> real option \<Rightarrow> bool \<Rightarrow> bool \<Rightarrow>
   ('a editpanel_scheme \<Rightarrow> real \<Rightarrow> 'a editpanel_scheme outcome) \<Rightarrow> 'a editpanel_scheme \<Rightarrow> string
   \<Rightarrow> 'a editpanel_scheme outcome" where
  "float_ctrl_fn float_of c lo hi left_incl right_incl callback s text =
     (case float_of text of
        None \<Rightarrow> Returned (SetValidationState False c Msg_not_number s)
      | Some v \<Rightarrow>
          let bad_lo = (case lo of None \<Rightarrow> False
                        | Some l \<Rightarrow> if left_incl then v < l else v \<le> l);
              bad_hi = (case hi of None \<Rightarrow> False
                        | Some h \<Rightarrow> if right_incl then v > h else v \<ge> h)
          in if bad_lo \<or> bad_hi
             then Returned (SetValidationState False c (Msg_range lo hi left_incl right_incl) s)
             else (case callback s v of
                     Raised e s1 \<Rightarrow> Raised e s1
                   | Returned s1 \<Rightarrow> Returned (SetValidationState True c Msg_none s1)))"

definition OnFillAlphaText :: "env \<Rightarrow> nodeform \<Rightarrow> string \<Rightarrow> nodeform outcome" where
  "OnFillAlphaText E s text =
     float_ctrl_fn (py_float E) fill_alpha_ctrl (Some 0) (Some 1) True True
       FillAlphaCallback s text"

definition OnBorderAlphaText :: "env \<Rightarrow> nodeform \<Rightarrow> string \<Rightarrow> nodeform outcome" where
  "OnBorderAlphaText E s text =
     float_ctrl_fn (py_float E) border_alpha_ctrl (Some 0) (Some 1) True True
       BorderAlphaCallback s text"

definition OnBorderWidthText :: "env \<Rightarrow> nodeform \<Rightarrow> string \<Rightarrow> nodeform outcome" where
  "OnBorderWidthText E s text =
     float_ctrl_fn (py_float E) border_width_ctrl (Some 1) (Some 100) True True
       BorderWidthCallback s text"

section \<open>The reaction form and the compartment form (rkviewer/forms.py)\<close>

text \<open>
  The selected reactions, \<open>[r for r in self._reactions if r.index in self._selected_idx]\<close>,
  and the selected compartments.
\<close>

definition selected_reactions :: "reactionform \<Rightarrow> reaction list" where
  "selected_reactions s = filter (\<lambda>r. rxn_index r \<in> selected_idx s) (reactions s)"

definition selected_compartments :: "compartmentform \<Rightarrow> compartment list" where
  "selected_compartments s = filter (\<lambda>c. comp_index c \<in> selected_idx s) (compartments s)"

text \<open>
  \<open>ReactionForm.UpdateAllFields\<close>: the flag is cleared first; the assertion and the
  unpacking \<open>[reaction] = reactions\<close> follow.
\<close>

definition Reaction_UpdateAllFields :: "reactionform \<Rightarrow> reactionform outcome" where
  "Reaction_UpdateAllFields s =
     (let s1 = s\<lparr>self_changes := False, update_all_calls := Suc (update_all_calls s)\<rparr> in
      if selected_idx s1 = {} then Raised AssertionError s1
      else if card (selected_idx s1) = 1 \<and> length (selected_reactions s1) \<noteq> 1
      then Raised ValueError s1
      else Returned s1)"

text \<open>\<open>ReactionForm._OnIdText\<close>.\<close>

definition Reaction_OnIdText :: "reactionform \<Rightarrow> string \<Rightarrow> reactionform outcome" where
  "Reaction_OnIdText s new_id =
     (if card (selected_idx s) \<noteq> 1 then Raised AssertionError s
      else
        let reai = the_elem (selected_idx s) in
        if length new_id = 0 then Returned (SetValidationState False id_ctrl Msg_empty_id s)
        else if new_id \<in> set (map rxn_id (reactions s))
        then Returned (SetValidationState False id_ctrl Msg_duplicate_id s)
        else Returned (SetValidationState True id_ctrl Msg_none
               (controller_calls [rename_reaction (net_index s) reai new_id]
                  (s\<lparr>self_changes := True\<rparr>))))"

text \<open>\<open>ReactionForm._StrokeWidthCallback\<close>, \<open>_OnFillColorChanged\<close>, \<open>_FillAlphaCallback\<close>.\<close>

definition Reaction_StrokeWidthCallback :: "reactionform \<Rightarrow> real \<Rightarrow> reactionform outcome" where
  "Reaction_StrokeWidthCallback s width =
     Returned (controller_calls
       ([start_group]
        @ map (\<lambda>r. set_reaction_line_thickness (net_index s) (rxn_index r) width)
            (selected_reactions s)
        @ [end_group])
       (s\<lparr>self_changes := True\<rparr>))"

definition Reaction_OnFillColorChanged ::
  "env \<Rightarrow> reactionform \<Rightarrow> colour \<Rightarrow> reactionform outcome" where
  "Reaction_OnFillColorChanged E s fill =
     (let per_reaction = (\<lambda>r. if on_msw E
            then [set_reaction_fill_rgb (net_index s) (rxn_index r) fill]
            else [set_reaction_fill_rgb (net_index s) (rxn_index r) fill,
                  set_reaction_fill_alpha (net_index s) (rxn_index r) (uint (Alpha fill))])
      in Returned (controller_calls
           ([start_group] @ concat (map per_reaction (selected_reactions s)) @ [end_group])
           (s\<lparr>self_changes := True\<rparr>)))"

definition Reaction_FillAlphaCallback :: "reactionform \<Rightarrow> real \<Rightarrow> reactionform outcome" where
  "Reaction_FillAlphaCallback s a =
     Returned (controller_calls
       ([start_group]
        @ map (\<lambda>r. set_reaction_fill_alpha (net_index s) (rxn_index r) (py_int (a * 255)))
            (selected_reactions s)
        @ [end_group])
       (s\<lparr>self_changes := True\<rparr>))"

text \<open>\<open>ReactionForm._OnRateLawText\<close>.\<close>

definition Reaction_OnRateLawText :: "reactionform \<Rightarrow> string \<Rightarrow> reactionform outcome" where
  "Reaction_OnRateLawText s ratelaw =
     (if card (selected_idx s) \<noteq> 1 then Raised AssertionError s
      else Returned (controller_calls
             [set_reaction_ratelaw (net_index s) (the_elem (selected_idx s)) ratelaw]
             (s\<lparr>self_changes := True\<rparr>)))"

text \<open>
  The callbacks made by \<open>_MakeSetSrcStoichFunction\<close> and \<open>_MakeSetDestStoichFunction\<close>
  for a reaction and a node.
\<close>

definition SetSrcStoich :: "int \<Rightarrow> int \<Rightarrow> reactionform \<Rightarrow> real \<Rightarrow> reactionform outcome" where
  "SetSrcStoich reai nodei s val =
     Returned (controller_calls [set_src_node_stoich (net_index s) reai nodei val]
                 (s\<lparr>self_changes := True\<rparr>))"

definition SetDestStoich :: "int \<Rightarrow> int \<Rightarrow> reactionform \<Rightarrow> real \<Rightarrow> reactionform outcome" where
  "SetDestStoich reai nodei s val =
     Returned (controller_calls [set_dest_node_stoich (net_index s) reai nodei val]
                 (s\<lparr>self_changes := True\<rparr>))"

text \<open>
  The text controls of the reaction form that are bound to a float validation function:
  the line width in [0.1, 100], the fill opacity in [0, 1], and a stoichiometry above 0.
\<close>

definition Reaction_OnStrokeWidthText :: "env \<Rightarrow> reactionform \<Rightarrow> string \<Rightarrow> reactionform outcome" where
  "Reaction_OnStrokeWidthText E s text =
     float_ctrl_fn (py_float E) stroke_width_ctrl (Some 0.1) (Some 100) True True
       Reaction_StrokeWidthCallback s text"

definition Reaction_OnFillAlphaText :: "env \<Rightarrow> reactionform \<Rightarrow> string \<Rightarrow> reactionform outcome" where
  "Reaction_OnFillAlphaText E s text =
     float_ctrl_fn (py_float E) fill_alpha_ctrl (Some 0) (Some 1) True True
       Reaction_FillAlphaCallback s text"

definition Reaction_OnSrcStoichText ::
  "env \<Rightarrow> int \<Rightarrow> int \<Rightarrow> reactionform \<Rightarrow> string \<Rightarrow> reactionform outcome" where
  "Reaction_OnSrcStoichText E reai nodei s text =
     float_ctrl_fn (py_float E) (reactant_stoich_ctrl nodei) (Some 0) None False True
       (SetSrcStoich reai nodei) s text"

definition Reaction_OnDestStoichText ::
  "env \<Rightarrow> int \<Rightarrow> int \<Rightarrow> reactionform \<Rightarrow> string \<Rightarrow> reactionform outcome" where
  "Reaction_OnDestStoichText E reai nodei s text =
     float_ctrl_fn (py_float E) (product_stoich_ctrl nodei) (Some 0) None False True
       (SetDestStoich reai nodei) s text"

text \<open>
  \<open>CompartmentForm.UpdateAllFields\<close>: the flag is cleared first, then the number of
  selected compartments is asserted to be that of the selected indices.
\<close>

definition Compartment_UpdateAllFields :: "compartmentform \<Rightarrow> compartmentform outcome" where
  "Compartment_UpdateAllFields s =
     (let s1 = s\<lparr>self_changes := False, update_all_calls := Suc (update_all_calls s)\<rparr> in
      if length (selected_compartments s1) \<noteq> card (selected_idx s1)
      then Raised AssertionError s1
      else Returned s1)"

text \<open>
  \<open>CompartmentForm._OnIdText\<close>.  For an identifier that is not empty the handler goes
  through \<open>self._reactions\<close>, an attribute that a \<open>CompartmentForm\<close> does not have: it
  raises AttributeError there, before the flag is set and before \<open>rename_compartment\<close>.
\<close>

definition Compartment_OnIdText :: "compartmentform \<Rightarrow> string \<Rightarrow> compartmentform outcome" where
  "Compartment_OnIdText s new_id =
     (if card (selected_idx s) \<noteq> 1 then Raised AssertionError s
      else if length new_id = 0
      then Returned (SetValidationState False id_ctrl Msg_empty_id s)
      else Raised AttributeError s)"

section \<open>Sequences of edits and refreshes\<close>

text \<open>
  What can happen to a form: the user edits one of its controls, or the model notifies
  the form and \<open>Update\<close> runs.  An exception raised by a handler ends that handler; the
  form goes on from the state it was left in.
\<close>

datatype node_event =
    Ev_id_text string bool
  | Ev_pos_text string
  | Ev_size_text string
  | Ev_fill_color colour
  | Ev_border_color colour
  | Ev_fill_alpha_text string
  | Ev_border_alpha_text string
  | Ev_border_width_text string
  | Ev_refresh

fun handle_node :: "env \<Rightarrow> nodeform \<Rightarrow> node_event \<Rightarrow> nodeform outcome" where
  "handle_node E s (Ev_id_text t ok) = OnIdText s t ok"
| "handle_node E s (Ev_pos_text t) = OnPosText E s t"
| "handle_node E s (Ev_size_text t) = OnSizeText E s t"
| "handle_node E s (Ev_fill_color c) = OnFillColorChanged E s c"
| "handle_node E s (Ev_border_color c) = OnBorderColorChanged E s c"
| "handle_node E s (Ev_fill_alpha_text t) = OnFillAlphaText E s t"
| "handle_node E s (Ev_border_alpha_text t) = OnBorderAlphaText E s t"
| "handle_node E s (Ev_border_width_text t) = OnBorderWidthText E s t"
| "handle_node E s Ev_refresh = Update (UpdateAllFields E) s"

fun run_node :: "env \<Rightarrow> nodeform \<Rightarrow> node_event list \<Rightarrow> nodeform" where
  "run_node E s [] = s"
| "run_node E s (e # es) = run_node E (state_of (handle_node E s e)) es"

datatype reaction_event =
    REv_id_text string
  | REv_ratelaw_text string
  | REv_stroke_width_text string
  | REv_fill_color colour
  | REv_fill_alpha_text string
  | REv_src_stoich_text int int string
  | REv_dest_stoich_text int int string
  | REv_refresh

fun handle_reaction :: "env \<Rightarrow> reactionform \<Rightarrow> reaction_event \<Rightarrow> reactionform outcome" where
  "handle_reaction E s (REv_id_text t) = Reaction_OnIdText s t"
| "handle_reaction E s (REv_ratelaw_text t) = Reaction_OnRateLawText s t"
| "handle_reaction E s (REv_stroke_width_text t) = Reaction_OnStrokeWidthText E s t"
| "handle_reaction E s (REv_fill_color c) = Reaction_OnFillColorChanged E s c"
| "handle_reaction E s (REv_fill_alpha_text t) = Reaction_OnFillAlphaText E s t"
| "handle_reaction E s (REv_src_stoich_text reai nodei t) = Reaction_OnSrcStoichText E reai nodei s t"
| "handle_reaction E s (REv_dest_stoich_text reai nodei t) = Reaction_OnDestStoichText E reai nodei s t"
| "handle_reaction E s REv_refresh = Update Reaction_UpdateAllFields s"

fun run_reaction :: "env \<Rightarrow> reactionform \<Rightarrow> reaction_event list \<Rightarrow> reactionform" where
  "run_reaction E s [] = s"
| "run_reaction E s (e # es) = run_reaction E (state_of (handle_reaction E s e)) es"

datatype compartment_event = CEv_id_text string | CEv_refresh

fun handle_compartment :: "compartmentform \<Rightarrow> compartment_event \<Rightarrow> compartmentform outcome" where
  "handle_compartment s (CEv_id_text t) = Compartment_OnIdText s t"
| "handle_compartment s CEv_refresh = Update Compartment_UpdateAllFields s"

fun run_compartment :: "compartmentform \<Rightarrow> compartment_event list \<Rightarrow> compartmentform" where
  "run_compartment s [] = s"
| "run_compartment s (e # es) = run_compartment (state_of (handle_compartment s e)) es"

text \<open>
  What links the echo flag to the Controller: a handler that has made a call has set
  \<open>_self_changes\<close>.
\<close>

definition flag_kept :: "'a editpanel_scheme \<Rightarrow> 'a editpanel_scheme outcome \<Rightarrow> bool" where
  "flag_kept s r = (calls (state_of r) = calls s \<or> self_changes (state_of r))"

section \<open>The surroundings used in the examples\<close>

text \<open>
  The plain decimal numerals among the strings that Python's \<open>float\<close> accepts: optional
  surrounding whitespace, an optional sign, digits with an optional decimal point.
  (\<open>float\<close> also accepts exponents, underscores, \<open>inf\<close> and \<open>nan\<close>; the examples do not
  use them.)
\<close>

fun digits_val :: "string \<Rightarrow> nat \<Rightarrow> nat option" where
  "digits_val [] acc = Some acc"
| "digits_val (c # cs) acc =
     (if 48 \<le> (of_char c :: nat) \<and> (of_char c :: nat) \<le> 57
      then digits_val cs (10 * acc + (of_char c - 48)) else None)"

definition decimal_float :: "string \<Rightarrow> real option" where
  "decimal_float s =
     (let t = strip s;
          neg = (t \<noteq> [] \<and> hd t = CHR ''-'');
          u = (if t \<noteq> [] \<and> (hd t = CHR ''-'' \<or> hd t = CHR ''+'') then tl t else t);
          ip = takeWhile (\<lambda>c. c \<noteq> CHR ''.'') u;
          fp = drop 1 (dropWhile (\<lambda>c. c \<noteq> CHR ''.'') u)
      in if ip = [] \<and> fp = [] then None
         else (case digits_val ip 0 of
                 None \<Rightarrow> None
               | Some a \<Rightarrow> (case digits_val fp 0 of
                             None \<Rightarrow> None
                           | Some b \<Rightarrow>
                               Some ((if neg then - 1 else 1)
                                     * (real a + real b / 10 ^ length fp)))))"

text \<open>
  Modelled from the spec: \<open>clamp_rect_pos\<close>, \<open>clamp_rect_size\<close> and \<open>get_bounding_rect\<close>
  of rkviewer/canvas/geometry.py, which is not among the sources.  \<open>clamp_rect_pos\<close>:
  "the rectangle is translated (not resized) minimally so it lies fully within
  \<open>canvas_bounds\<close>"; \<open>clamp_rect_size\<close>: "may shrink the size so the rectangle fits
  starting from the fixed position"; the bounding rectangle: "the smallest axis-aligned
  rectangle containing every selected node's rectangle".
\<close>

definition spec_clamp_rect_pos :: "rect \<Rightarrow> rect \<Rightarrow> vec2" where
  "spec_clamp_rect_pos r bounds =
     Vec2 (max (vx (rpos bounds))
               (min (vx (rpos r)) (vx (rpos bounds) + vx (rsize bounds) - vx (rsize r))))
          (max (vy (rpos bounds))
               (min (vy (rpos r)) (vy (rpos bounds) + vy (rsize bounds) - vy (rsize r))))"

definition spec_clamp_rect_size :: "rect \<Rightarrow> vec2 \<Rightarrow> vec2" where
  "spec_clamp_rect_size r botright =
     Vec2 (min (vx (rsize r)) (vx botright - vx (rpos r)))
          (min (vy (rsize r)) (vy botright - vy (rpos r)))"

definition spec_get_bounding_rect :: "rect list \<Rightarrow> rect" where
  "spec_get_bounding_rect rs =
     (case rs of
        [] \<Rightarrow> Rect (Vec2 0 0) (Vec2 0 0)
      | r # rest \<Rightarrow>
          let left = fold min (map (\<lambda>q. vx (rpos q)) rest) (vx (rpos r));
              top = fold min (map (\<lambda>q. vy (rpos q)) rest) (vy (rpos r));
              right = fold max (map (\<lambda>q. vx (rpos q) + vx (rsize q)) rest)
                        (vx (rpos r) + vx (rsize r));
              bottom = fold max (map (\<lambda>q. vy (rpos q) + vy (rsize q)) rest)
                         (vy (rpos r) + vy (rsize r))
          in Rect (Vec2 left top) (Vec2 (right - left) (bottom - top)))"

text \<open>A platform with a separate alpha field, a canvas of 1000 by 1000, minimum size 10.\<close>

definition example_env :: env where
  "example_env =
     \<lparr>on_msw = True, realsize = Vec2 1000 1000, min_node_width = 10, min_node_height = 10,
      py_float = decimal_float, clamp_rect_pos = spec_clamp_rect_pos,
      clamp_rect_size = spec_clamp_rect_size, get_bounding_rect = spec_get_bounding_rect\<rparr>"

definition example_node :: "int \<Rightarrow> real \<Rightarrow> real \<Rightarrow> real \<Rightarrow> real \<Rightarrow> node" where
  "example_node i px py w h =
     \<lparr>index = i, node_id = [], position = Vec2 px py, node_size = Vec2 w h,
      fill_color = BLACK, border_color = BLACK, border_width = 1\<rparr>"

definition example_form :: "node list \<Rightarrow> int set \<Rightarrow> rect option \<Rightarrow> nodeform" where
  "example_form ns sel br =
     \<lparr>net_index = 0, selected_idx = sel, self_changes = False, badges = (\<lambda>c. None),
      calls = [], update_all_calls = 0, nodes = ns, bounding_rect = br, posted = []\<rparr>"

text \<open>
  The claim about \<open>parse_precisions\<close> speaks of the number of digits after the decimal
  point of a numeral, 0 when it has no point; this is that number, in the claim's words.
\<close>

definition spec_digits_after_point :: "string \<Rightarrow> int" where
  "spec_digits_after_point t =
     (if CHR ''.'' \<in> set t then int (length (tl (dropWhile (\<lambda>c. c \<noteq> CHR ''.'') t))) else 0)"

text \<open>
  Forms for the examples: two selected nodes with their bounding rectangle, one selected
  node, one selected node at the right edge of the canvas, and two selected nodes of
  which the first has width 0.
\<close>

definition example_two_nodes :: "node list" where
  "example_two_nodes = [example_node 0 0 0 10 10, example_node 1 20 20 10 10]"

definition example_multi_form :: nodeform where
  "example_multi_form =
     example_form example_two_nodes {0, 1} (Some (Rect (Vec2 0 0) (Vec2 30 30)))"

definition example_single_form :: nodeform where
  "example_single_form = example_form [example_node 0 5 5 20 20] {0} None"


definition example_zero_width_form :: nodeform where
  "example_zero_width_form =
     example_form [example_node 0 0 0 0 10, example_node 1 20 20 10 10] {0, 1}
       (Some (Rect (Vec2 0 0) (Vec2 30 30)))"

text \<open>
  A reaction form with one reaction, which is selected, and a compartment form with one
  compartment, which is selected.
\<close>

definition example_reaction_form :: reactionform where
  "example_reaction_form =
     \<lparr>net_index = 0, selected_idx = {0}, self_changes = False, badges = (\<lambda>c. None),
      calls = [], update_all_calls = 0,
      reactions = [\<lparr>rxn_index = 0, rxn_id = ''r0'', rxn_fill_color = BLACK, rxn_thickness = 2,
                    rxn_rate_law = ''k''\<rparr>]\<rparr>"

definition example_compartment_form :: compartmentform where
  "example_compartment_form =
     \<lparr>net_index = 0, selected_idx = {0}, self_changes = False, badges = (\<lambda>c. None),
      calls = [], update_all_calls = 0,
      compartments = [\<lparr>comp_index = 0, comp_id = ''c0''\<rparr>]\<rparr>"


section \<open>\<open>parse_precisions\<close>\<close>

text \<open>
  Claim C10: for a text "X, Y" of two decimal numerals, \<open>parse_precisions\<close> returns the
  number of digits after the decimal point of X and of Y.  The code takes the length of
  X where it should take the length of Y: for "1.5, 2.25" it returns (1, 1), while the
  second numeral has 2 digits after its point.
\<close>

theorem parse_precisions_second_component:
  "parse_precisions ''1.5, 2.25'' = Inr (1, 1)
   \<and> spec_digits_after_point ''1.5'' = 1 \<and> spec_digits_after_point ''2.25'' = 2"
  by (simp add: parse_precisions_def strip_def is_space_def spec_digits_after_point_def)

section \<open>Grid snap\<close>













section \<open>Aggregation of the selected values\<close>

lemma image_const_singleton:
  assumes "x \<in> A" "\<forall>c \<in> A. f c = v"
  shows "f ` A = {v}"
  using assms by auto

lemma card_image_one:
  assumes "xs \<noteq> []"
  shows "(card (f ` set xs) = 1) = (\<forall>c \<in> set xs. f c = f (hd xs))"
proof
  assume "card (f ` set xs) = 1"
  then obtain v where v: "f ` set xs = {v}" by (auto simp: card_1_singleton_iff)
  have "hd xs \<in> set xs" using assms by simp
  with v have "f (hd xs) = v" by blast
  with v show "\<forall>c \<in> set xs. f c = f (hd xs)" by blast
next
  assume a: "\<forall>c \<in> set xs. f c = f (hd xs)"
  have "hd xs \<in> set xs" using assms by simp
  then have "f ` set xs = {f (hd xs)}" using a by (rule image_const_singleton)
  then show "card (f ` set xs) = 1" by simp
qed

lemma the_elem_image_one:
  assumes "xs \<noteq> []" "\<forall>c \<in> set xs. f c = f (hd xs)"
  shows "the_elem (f ` set xs) = f (hd xs)"
proof -
  have "hd xs \<in> set xs" using assms by simp
  then have "f ` set xs = {f (hd xs)}" using assms(2) by (rule image_const_singleton)
  then show ?thesis by simp
qed

lemma ucast_low: "ucast (ucast (r :: 8 word) OR push_bit 8 (ucast (g :: 8 word)) OR push_bit 16 (ucast (b :: 8 word)) :: 32 word) = r"
  by (rule bit_word_eqI) (auto simp: bit_simps dest: bit_imp_le_length)

lemma ucast_mid: "ucast (drop_bit 8 (ucast (r :: 8 word) OR push_bit 8 (ucast (g :: 8 word)) OR push_bit 16 (ucast (b :: 8 word)) :: 32 word)) = g"
  by (rule bit_word_eqI) (auto simp: bit_simps dest: bit_imp_le_length)

lemma ucast_high: "ucast (drop_bit 16 (ucast (r :: 8 word) OR push_bit 8 (ucast (g :: 8 word)) OR push_bit 16 (ucast (b :: 8 word)) :: 32 word)) = b"
  by (rule bit_word_eqI) (auto simp: bit_simps dest: bit_imp_le_length)

lemma SetRGB_GetRGB: "SetRGB c0 (GetRGB c) = c\<lparr>Alpha := 255\<rparr>"
  unfolding SetRGB_def GetRGB_def ucast_low ucast_mid ucast_high by simp

lemma GetRGB_SetRGB_GetRGB: "GetRGB (SetRGB c0 (GetRGB c)) = GetRGB c"
  by (simp add: SetRGB_GetRGB) (simp add: GetRGB_def)


lemma card_gt_one:
  assumes "finite A" "a \<in> A" "b \<in> A" "a \<noteq> b"
  shows "card A \<noteq> 1"
proof
  assume "card A = 1"
  then obtain v where "A = {v}" by (auto simp: card_1_singleton_iff)
  with assms show False by auto
qed

text \<open>
  Claim C5, as stated: \<open>_GetMultiFloatText\<close> returns the common value when all values
  are equal after rounding to the precision \<open>P\<close>.  It does not: 1.001 and 1.002 are
  equal after rounding to 2 decimals, and for the set of the two the result is "?".
\<close>

theorem multi_float_text_rounding_counterexample:
  "spec_round_to 2 1.001 = spec_round_to 2 1.002
   \<and> GetMultiFloatText spec_no_rzeros {1.001, 1.002} 2 = ''?''"
  by (simp add: spec_round_to_def round_def GetMultiFloatText_def)

text \<open>
  Claim C5, amended: \<open>_GetMultiFloatText\<close> compares the values as they are.  For a set
  with exactly one element it returns \<open>no_rzeros\<close> of that element at the given
  precision; for a finite set that contains two different values, in particular two
  values that differ by more than \<open>10^-P\<close>, it returns "?".
\<close>

theorem multi_float_text_exact_equality:
  "GetMultiFloatText no_rzeros {v} P = no_rzeros v P
   \<and> (finite vs \<and> a \<in> vs \<and> b \<in> vs \<and> a \<noteq> b \<longrightarrow> GetMultiFloatText no_rzeros vs P = ''?'')
   \<and> (finite vs \<and> a \<in> vs \<and> b \<in> vs \<and> \<bar>a - b\<bar> > 1 / 10 ^ P
        \<longrightarrow> GetMultiFloatText no_rzeros vs P = ''?'')"
proof (intro conjI impI)
  show "GetMultiFloatText no_rzeros {v} P = no_rzeros v P"
    by (simp add: GetMultiFloatText_def)
next
  assume "finite vs \<and> a \<in> vs \<and> b \<in> vs \<and> a \<noteq> b"
  then have "card vs \<noteq> 1" using card_gt_one [of vs a b] by simp
  then show "GetMultiFloatText no_rzeros vs P = ''?''"
    by (simp add: GetMultiFloatText_def)
next
  assume h: "finite vs \<and> a \<in> vs \<and> b \<in> vs \<and> \<bar>a - b\<bar> > 1 / 10 ^ P"
  have "(0::real) \<le> 1 / 10 ^ P" by simp
  with h have "a \<noteq> b" by auto
  with h have "card vs \<noteq> 1" using card_gt_one [of vs a b] by simp
  then show "GetMultiFloatText no_rzeros vs P = ''?''"
    by (simp add: GetMultiFloatText_def)
qed

theorem multi_float_text_exact_equality_witness:
  "GetMultiFloatText spec_no_rzeros {1.5} 2 = spec_no_rzeros 1.5 2
   \<and> finite {1.001, 1.002 :: real} \<and> (1.001 :: real) \<in> {1.001, 1.002}
   \<and> (1.002 :: real) \<in> {1.001, 1.002} \<and> (1.001 :: real) \<noteq> 1.002
   \<and> GetMultiFloatText spec_no_rzeros {1.001, 1.002} 2 = ''?''
   \<and> finite {1, 2 :: real} \<and> (1 :: real) \<in> {1, 2} \<and> (2 :: real) \<in> {1, 2}
   \<and> \<bar>1 - 2 :: real\<bar> > 1 / 10 ^ 2
   \<and> GetMultiFloatText spec_no_rzeros {1, 2} 2 = ''?''"
proof -
  have h1: "finite {1.001, 1.002 :: real} \<and> (1.001 :: real) \<in> {1.001, 1.002}
    \<and> (1.002 :: real) \<in> {1.001, 1.002} \<and> (1.001 :: real) \<noteq> 1.002"
    by simp
  have h2: "finite {1, 2 :: real} \<and> (1 :: real) \<in> {1, 2} \<and> (2 :: real) \<in> {1, 2}
    \<and> \<bar>1 - 2 :: real\<bar> > 1 / 10 ^ 2"
    by simp
  from multi_float_text_exact_equality [of spec_no_rzeros "1.5" 2 "{1.001, 1.002}" "1.001" "1.002"] h1
  have a: "GetMultiFloatText spec_no_rzeros {1.5} 2 = spec_no_rzeros 1.5 2"
    and b: "GetMultiFloatText spec_no_rzeros {1.001, 1.002} 2 = ''?''"
    by blast+
  from multi_float_text_exact_equality [of spec_no_rzeros "1.5" 2 "{1, 2}" 1 2] h2
  have c: "GetMultiFloatText spec_no_rzeros {1, 2} 2 = ''?''"
    by blast
  from a b c h1 h2 show ?thesis by blast
qed

lemma agg_image:
  assumes "xs \<noteq> []"
  shows "(if card (f ` set xs) = 1 then g (the_elem (f ` set xs)) else d)
       = (if \<forall>c \<in> set xs. f c = f (hd xs) then g (f (hd xs)) else d)"
proof -
  define same where "same = (\<forall>c \<in> set xs. f c = f (hd xs))"
  have c: "(card (f ` set xs) = 1) = same"
    unfolding same_def using assms by (rule card_image_one)
  have e: "same \<Longrightarrow> the_elem (f ` set xs) = f (hd xs)"
    unfolding same_def using assms by (rule the_elem_image_one)
  have "(if card (f ` set xs) = 1 then g (the_elem (f ` set xs)) else d)
       = (if same then g (f (hd xs)) else d)"
    using c e by (cases same) simp_all
  then show ?thesis unfolding same_def .
qed

lemma GetMultiColor_msw:
  assumes "colors \<noteq> []"
  shows "GetMultiColor True colors =
     (if \<forall>c \<in> set colors. GetRGB c = GetRGB (hd colors)
      then (hd colors)\<lparr>Alpha := 255\<rparr> else BLACK,
      if \<forall>c \<in> set colors. Alpha c = Alpha (hd colors)
      then Some (Alpha (hd colors)) else None)"
  unfolding GetMultiColor_def Let_def if_True
    agg_image [OF assms, of GetRGB "SetRGB BLACK" BLACK]
    agg_image [OF assms, of Alpha Some None] SetRGB_GetRGB ..

text \<open>
  Claim C9: on a platform with a separate alpha field, \<open>_GetMultiColor\<close> aggregates the
  RGB value and the alpha value of a non-empty list of colours independently: the
  returned colour has the shared RGB value when all RGB values are equal (and is black
  when they are not), and the returned alpha is the shared alpha when all alphas are
  equal and \<open>None\<close> otherwise, which \<open>_AlphaToText\<close> renders as "?".  The example
  after the theorem is a list whose RGB is common while its alpha is mixed.
\<close>

theorem multi_color_independent_channels:
  assumes "colors \<noteq> []"
  shows "((\<forall>c \<in> set colors. GetRGB c = GetRGB (hd colors))
            \<longrightarrow> GetRGB (fst (GetMultiColor True colors)) = GetRGB (hd colors))
       \<and> (\<not> (\<forall>c \<in> set colors. GetRGB c = GetRGB (hd colors))
            \<longrightarrow> fst (GetMultiColor True colors) = BLACK)
       \<and> snd (GetMultiColor True colors) =
           (if \<forall>c \<in> set colors. Alpha c = Alpha (hd colors)
            then Some (Alpha (hd colors)) else None)
       \<and> AlphaToText no_rzeros None prec = ''?''
       \<and> AlphaToText no_rzeros (Some a) prec = no_rzeros (real (unat a) / 255) prec"
proof -
  define rgb_same where "rgb_same = (\<forall>c \<in> set colors. GetRGB c = GetRGB (hd colors))"
  define alpha_same where "alpha_same = (\<forall>c \<in> set colors. Alpha c = Alpha (hd colors))"
  have r: "GetMultiColor True colors =
     (if rgb_same then (hd colors)\<lparr>Alpha := 255\<rparr> else BLACK,
      if alpha_same then Some (Alpha (hd colors)) else None)"
    unfolding rgb_same_def alpha_same_def using assms by (rule GetMultiColor_msw)
  have "(rgb_same \<longrightarrow> GetRGB (fst (GetMultiColor True colors)) = GetRGB (hd colors))
       \<and> (\<not> rgb_same \<longrightarrow> fst (GetMultiColor True colors) = BLACK)
       \<and> snd (GetMultiColor True colors) =
           (if alpha_same then Some (Alpha (hd colors)) else None)
       \<and> AlphaToText no_rzeros None prec = ''?''
       \<and> AlphaToText no_rzeros (Some a) prec = no_rzeros (real (unat a) / 255) prec"
    unfolding r by (simp add: AlphaToText_def GetRGB_def)
  then show ?thesis unfolding rgb_same_def alpha_same_def .
qed

theorem multi_color_independent_channels_witness:
  "[BLACK, BLACK\<lparr>Alpha := 0\<rparr>] \<noteq> []
   \<and> GetRGB (fst (GetMultiColor True [BLACK, BLACK\<lparr>Alpha := 0\<rparr>])) = GetRGB BLACK
   \<and> snd (GetMultiColor True [BLACK, BLACK\<lparr>Alpha := 0\<rparr>]) = None
   \<and> AlphaToText spec_no_rzeros None 2 = ''?''"
proof -
  have ne: "[BLACK, BLACK\<lparr>Alpha := 0\<rparr>] \<noteq> []" by simp
  from multi_color_independent_channels [OF ne, of spec_no_rzeros 2 0]
  show ?thesis by (simp add: GetRGB_def BLACK_def)
qed

section \<open>The position and size controls of the node form\<close>

lemma selected_after_move:
  "get_nodes_by_idx (map (\<lambda>n. if index n \<in> sel then n\<lparr>position := f n\<rparr> else n) xs) sel
   = map (\<lambda>n. n\<lparr>position := f n\<rparr>) (get_nodes_by_idx xs sel)"
  by (induction xs) (simp_all add: get_nodes_by_idx_def)

lemma vec_add_sub_same: "vec_add p (vec_sub q q) = p"
  by (cases p) (simp add: vec_add_def vec_sub_def)

lemma vec_sub_add_cancel: "vec_sub (vec_add p d) (vec_add q d) = vec_sub p q"
  by (simp add: vec_add_def vec_sub_def)

lemma OnPosText_multi:
  assumes p: "parse_num_pair (py_float E) text = Some (x, y)" and x: "0 \<le> x" and y: "0 \<le> y"
    and ns: "ns = get_nodes_by_idx (nodes s) (selected_idx s)" and len: "length ns \<noteq> 1"
    and br: "bounding_rect s = Some br"
    and cl: "clamped = clamp_rect_pos E (Rect (Vec2 x y) (rsize br)) (Rect (Vec2 0 0) (realsize E))"
    and off: "offset = vec_sub clamped (rpos br)"
  shows "\<exists>s'. OnPosText E s text = Returned s'
     \<and> nodes s' = map (\<lambda>n. if index n \<in> selected_idx s
                             then n\<lparr>position := vec_add (position n) offset\<rparr> else n) (nodes s)
     \<and> calls s' = calls s @
          (if rpos br \<noteq> Vec2 x y \<or> Vec2 x y \<noteq> clamped
           then [start_group]
                @ map (\<lambda>n. move_node (net_index s) (index n) (vec_add (position n) offset)) ns
                @ [end_group]
           else [])
     \<and> self_changes s' = (if rpos br \<noteq> Vec2 x y \<or> Vec2 x y \<noteq> clamped then True else self_changes s)
     \<and> badges s' pos_ctrl = None"
proof (cases "rpos br \<noteq> Vec2 x y \<or> Vec2 x y \<noteq> clamped")
  case True
  then show ?thesis
    using p x y len br
    unfolding OnPosText_def ns cl off
    by (simp add: Let_def SetValidationState_def controller_calls_def post_event_def
        move_selected_def selected_after_move comp_def)
next
  case False
  then have e: "rpos br = Vec2 x y" "clamped = Vec2 x y" by auto
  have id: "map (\<lambda>n. if index n \<in> selected_idx s
                  then n\<lparr>position := vec_add (position n) offset\<rparr> else n) (nodes s) = nodes s"
    unfolding off e by (simp add: vec_add_sub_same map_idI)
  show ?thesis
    unfolding id using False p x y len br
    unfolding OnPosText_def ns cl
    by (simp add: Let_def SetValidationState_def)
qed



text \<open>
  Claim C2: with two or more nodes selected and a well-formed, non-negative proposed
  position, \<open>_OnPosText\<close> computes one offset, the clamped position of the bounding
  rectangle moved to the proposed position minus the old position of the bounding
  rectangle, and adds it to the position of every selected node: the sizes of the nodes
  and the differences between the positions of selected nodes are unchanged.  It tells
  the Controller inside one \<open>start_group\<close>/\<open>end_group\<close> pair, with one \<open>move_node\<close> to
  the new position for every selected node in order; it makes these calls whenever the
  offset is not zero, and none when the proposed position is the old one and is not
  changed by clamping.
\<close>

theorem position_text_rigid_translation:
  fixes E :: env and s :: nodeform and x y :: real and br :: rect
  defines "clamped \<equiv> clamp_rect_pos E (Rect (Vec2 x y) (rsize br))
                         (Rect (Vec2 0 0) (realsize E))"
  defines "offset \<equiv> vec_sub (clamp_rect_pos E (Rect (Vec2 x y) (rsize br))
                                  (Rect (Vec2 0 0) (realsize E))) (rpos br)"
  defines "moves \<equiv> [start_group]
                     @ map (\<lambda>n. move_node (net_index s) (index n)
                                   (vec_add (position n)
                                      (vec_sub (clamp_rect_pos E (Rect (Vec2 x y) (rsize br))
                                                  (Rect (Vec2 0 0) (realsize E))) (rpos br))))
                         (get_nodes_by_idx (nodes s) (selected_idx s))
                     @ [end_group]"
  assumes "parse_num_pair (py_float E) text = Some (x, y)" and "0 \<le> x" and "0 \<le> y"
    and "2 \<le> length (get_nodes_by_idx (nodes s) (selected_idx s))"
    and "bounding_rect s = Some br"
  shows "\<exists>s'. OnPosText E s text = Returned s'
     \<and> nodes s' = map (\<lambda>n. if index n \<in> selected_idx s
                             then n\<lparr>position := vec_add (position n) offset\<rparr> else n) (nodes s)
     \<and> calls s' = calls s @ (if rpos br \<noteq> Vec2 x y \<or> Vec2 x y \<noteq> clamped then moves else [])
     \<and> (offset \<noteq> Vec2 0 0 \<longrightarrow> calls s' = calls s @ moves)
     \<and> map node_size (nodes s') = map node_size (nodes s)
     \<and> (\<forall>i < length (nodes s). \<forall>j < length (nodes s).
           index (nodes s ! i) \<in> selected_idx s \<and> index (nodes s ! j) \<in> selected_idx s
           \<longrightarrow> vec_sub (position (nodes s' ! i)) (position (nodes s' ! j))
               = vec_sub (position (nodes s ! i)) (position (nodes s ! j)))"
proof -
  let ?ns = "get_nodes_by_idx (nodes s) (selected_idx s)"
  have len: "length ?ns \<noteq> 1" using assms(7) by simp
  from OnPosText_multi [OF assms(4) assms(5) assms(6) refl len assms(8) refl refl]
  obtain s' where r: "OnPosText E s text = Returned s'"
    and n: "nodes s' = map (\<lambda>n. if index n \<in> selected_idx s
                             then n\<lparr>position := vec_add (position n) offset\<rparr> else n) (nodes s)"
    and c: "calls s' = calls s @ (if rpos br \<noteq> Vec2 x y \<or> Vec2 x y \<noteq> clamped then moves else [])"
    unfolding offset_def clamped_def moves_def by blast
  have c': "offset \<noteq> Vec2 0 0 \<longrightarrow> calls s' = calls s @ moves"
  proof
    assume nz: "offset \<noteq> Vec2 0 0"
    have "rpos br \<noteq> Vec2 x y \<or> Vec2 x y \<noteq> clamped"
    proof (rule ccontr)
      assume "\<not> (rpos br \<noteq> Vec2 x y \<or> Vec2 x y \<noteq> clamped)"
      then have "clamped = rpos br" by simp
      then have "offset = Vec2 0 0"
        unfolding offset_def clamped_def by (simp add: vec_sub_def)
      with nz show False by simp
    qed
    with c show "calls s' = calls s @ moves" by simp
  qed
  have sz: "map node_size (nodes s') = map node_size (nodes s)"
    unfolding n by (simp add: comp_def)
  have diff: "\<forall>i < length (nodes s). \<forall>j < length (nodes s).
           index (nodes s ! i) \<in> selected_idx s \<and> index (nodes s ! j) \<in> selected_idx s
           \<longrightarrow> vec_sub (position (nodes s' ! i)) (position (nodes s' ! j))
               = vec_sub (position (nodes s ! i)) (position (nodes s ! j))"
    unfolding n by (simp add: vec_sub_add_cancel)
  from r n c c' sz diff show ?thesis by blast
qed

theorem position_text_rigid_translation_witness:
  "parse_num_pair (py_float example_env) ''5, 7'' = Some (5, 7)
   \<and> (0::real) \<le> 5 \<and> (0::real) \<le> 7
   \<and> 2 \<le> length (get_nodes_by_idx (nodes example_multi_form) (selected_idx example_multi_form))
   \<and> bounding_rect example_multi_form = Some (Rect (Vec2 0 0) (Vec2 30 30))
   \<and> vec_sub (clamp_rect_pos example_env (Rect (Vec2 5 7) (Vec2 30 30))
                (Rect (Vec2 0 0) (realsize example_env))) (Vec2 0 0) = Vec2 5 7
   \<and> (\<exists>s'. OnPosText example_env example_multi_form ''5, 7'' = Returned s'
          \<and> map position (nodes s') = [Vec2 5 7, Vec2 25 27]
          \<and> map node_size (nodes s') = [Vec2 10 10, Vec2 10 10]
          \<and> calls s' = [start_group, move_node 0 0 (Vec2 5 7), move_node 0 1 (Vec2 25 27),
                         end_group])"
proof -
  have h1: "parse_num_pair (py_float example_env) ''5, 7'' = Some (5, 7)"
    by (simp add: example_env_def parse_num_pair_def decimal_float_def strip_def is_space_def
        Let_def)
  have h2: "(0::real) \<le> 5" and h3: "(0::real) \<le> 7" by simp_all
  have ns: "get_nodes_by_idx (nodes example_multi_form) (selected_idx example_multi_form)
            = [example_node 0 0 0 10 10, example_node 1 20 20 10 10]"
    by (simp add: example_multi_form_def example_form_def example_two_nodes_def
        example_node_def get_nodes_by_idx_def)
  have h4: "2 \<le> length (get_nodes_by_idx (nodes example_multi_form)
                           (selected_idx example_multi_form))"
    unfolding ns by simp
  have h5: "bounding_rect example_multi_form = Some (Rect (Vec2 0 0) (Vec2 30 30))"
    by (simp add: example_multi_form_def example_form_def)
  have off: "vec_sub (clamp_rect_pos example_env (Rect (Vec2 5 7) (Vec2 30 30))
                (Rect (Vec2 0 0) (realsize example_env))) (Vec2 0 0) = Vec2 5 7"
    by (simp add: example_env_def spec_clamp_rect_pos_def vec_sub_def)
  have c0: "calls example_multi_form = []" and n0: "net_index example_multi_form = 0"
    and nodes0: "nodes example_multi_form
                 = [example_node 0 0 0 10 10, example_node 1 20 20 10 10]"
    and sel0: "selected_idx example_multi_form = {0, 1}"
    by (simp_all add: example_multi_form_def example_form_def example_two_nodes_def)
  from position_text_rigid_translation [OF h1 h2 h3 h4 h5, unfolded rect.sel off ns c0 n0]
  obtain s' where r: "OnPosText example_env example_multi_form ''5, 7'' = Returned s'"
    and n: "nodes s' = map (\<lambda>n. if index n \<in> selected_idx example_multi_form
          then n\<lparr>position := vec_add (position n) (Vec2 5 7)\<rparr>
          else n) (nodes example_multi_form)"
    and c: "Vec2 5 7 \<noteq> Vec2 0 0 \<longrightarrow> calls s' = [] @ [start_group]
             @ map (\<lambda>n. move_node 0 (index n) (vec_add (position n) (Vec2 5 7)))
                 [example_node 0 0 0 10 10, example_node 1 20 20 10 10]
             @ [end_group]"
    by blast
  have "map position (nodes s') = [Vec2 5 7, Vec2 25 27]"
    unfolding n nodes0 sel0 by (simp add: example_node_def vec_add_def)
  moreover have "map node_size (nodes s') = [Vec2 10 10, Vec2 10 10]"
    unfolding n nodes0 sel0 by (simp add: example_node_def)
  moreover have "calls s' = [start_group, move_node 0 0 (Vec2 5 7),
                              move_node 0 1 (Vec2 25 27), end_group]"
    using c by (simp add: example_node_def vec_add_def)
  ultimately have "\<exists>s'. OnPosText example_env example_multi_form ''5, 7'' = Returned s'
          \<and> map position (nodes s') = [Vec2 5 7, Vec2 25 27]
          \<and> map node_size (nodes s') = [Vec2 10 10, Vec2 10 10]
          \<and> calls s' = [start_group, move_node 0 0 (Vec2 5 7), move_node 0 1 (Vec2 25 27),
                         end_group]"
    using r by (intro exI [of _ s']) simp
  with h1 h4 h5 off show ?thesis by simp
qed

lemma py_min_Min:
  assumes "xs \<noteq> []"
  shows "py_min xs = Inr (Min (set xs))"
proof (cases xs)
  case Nil
  with assms show ?thesis by simp
next
  case (Cons a l)
  have "fold min l a = Min (set (a # l))" by (rule Min.set_eq_fold [symmetric])
  then show ?thesis unfolding Cons py_min_def by simp
qed


lemma Min_zero:
  assumes "finite A" "(0::real) \<in> A" "\<forall>a \<in> A. 0 \<le> a"
  shows "Min A = 0"
  using assms by (intro Min_eqI) auto

lemma OnSizeText_multi:
  assumes p: "parse_num_pair (py_float E) text = Some (w, h)"
    and ns: "ns = get_nodes_by_idx (nodes s) (selected_idx s)"
    and len: "length ns \<noteq> 1" and ne: "ns \<noteq> []"
    and mw: "mw = Min (set (map (\<lambda>n. vx (node_size n)) ns))"
    and mh: "mh = Min (set (map (\<lambda>n. vy (node_size n)) ns))"
  shows "OnSizeText E s text =
    (if mw = 0 \<or> mh = 0 then Raised ZeroDivisionError s
     else case bounding_rect s of
       None \<Rightarrow> Raised AttributeError s
     | Some br \<Rightarrow>
         let limit = elem_mul (rsize br) (Vec2 (min_node_width E / mw) (min_node_height E / mh));
             clamped = clamp_rect_size E (Rect (rpos br) (Vec2 w h)) (realsize E)
         in if w < vx limit \<or> h < vy limit
            then Returned (SetValidationState False size_ctrl (Msg_bounding_size limit) s)
            else if rsize br \<noteq> clamped \<or> Vec2 w h \<noteq> clamped
            then (case elem_div clamped (rsize br) of
                    Inl e \<Rightarrow> Raised e s
                  | Inr ratio \<Rightarrow>
                      Returned (SetValidationState True size_ctrl Msg_none
                        (controller_calls
                           ([start_group]
                            @ concat (map (resize_calls (net_index s) br ratio) ns)
                            @ [end_group])
                           (s\<lparr>self_changes := True\<rparr>))))
            else Returned (SetValidationState True size_ctrl Msg_none s))"
proof -
  have a: "py_min (map (\<lambda>n. vx (node_size n)) ns) = Inr mw"
    unfolding mw using ne by (simp add: py_min_Min)
  have b: "py_min (map (\<lambda>n. vy (node_size n)) ns) = Inr mh"
    unfolding mh using ne by (simp add: py_min_Min)
  show ?thesis
    unfolding OnSizeText_def p ns [symmetric] using len
    by (simp add: Let_def a b py_div_def split: option.splits)
qed

lemma OnSizeText_single:
  assumes p: "parse_num_pair (py_float E) text = Some (w, h)"
    and ns: "get_nodes_by_idx (nodes s) (selected_idx s) = [n]"
  shows "OnSizeText E s text =
    (if w < min_node_width E \<or> h < min_node_height E
     then Returned (SetValidationState False size_ctrl
                      (Msg_node_size (min_node_width E) (min_node_height E)) s)
     else let clamped = clamp_rect_size E (Rect (position n) (Vec2 w h)) (realsize E) in
       if node_size n \<noteq> clamped \<or> Vec2 w h \<noteq> clamped
       then Returned (SetValidationState True size_ctrl Msg_none
              (controller_calls [set_node_size (net_index s) (index n) clamped]
                 (s\<lparr>self_changes := True\<rparr>)))
       else Returned (SetValidationState True size_ctrl Msg_none s))"
  unfolding OnSizeText_def p ns by (simp add: Let_def)


lemma state_simps:
  "state_of (Returned s) = s" "state_of (Raised e s) = s"
  "returned (Returned s) = True" "returned (Raised e s) = False"
  by (simp_all add: state_of_def returned_def)



lemmas example_defs = example_env_def example_form_def example_node_def
  example_two_nodes_def example_multi_form_def example_single_form_def
  example_zero_width_form_def

lemmas parse_defs = parse_num_pair_def decimal_float_def strip_def is_space_def

text \<open>
  Claim C3: when the size text parses and the proposed size is below the minimum (for
  one node, a component below the configured minimum width or height; for several nodes,
  a component below the size of the bounding rectangle scaled by \<open>min_ratio\<close>),
  \<open>_OnSizeText\<close> shows a validation error on the size control and changes nothing
  else: no Controller call is made and the nodes keep their positions and sizes.
\<close>

theorem size_below_minimum_rejected:
  fixes E :: env and s :: nodeform
  defines "ns \<equiv> get_nodes_by_idx (nodes s) (selected_idx s)"
  defines "mw \<equiv> Min (set (map (\<lambda>n. vx (node_size n)) ns))"
  defines "mh \<equiv> Min (set (map (\<lambda>n. vy (node_size n)) ns))"
  assumes p: "parse_num_pair (py_float E) text = Some (w, h)"
    and below: "(length ns = 1 \<and> (w < min_node_width E \<or> h < min_node_height E))
       \<or> (2 \<le> length ns \<and> bounding_rect s = Some br \<and> mw \<noteq> 0 \<and> mh \<noteq> 0
           \<and> (w < vx (rsize br) * (min_node_width E / mw)
                \<or> h < vy (rsize br) * (min_node_height E / mh)))"
  shows "\<exists>m s'. OnSizeText E s text = Returned s'
           \<and> s' = s\<lparr>badges := (badges s)(size_ctrl := Some m)\<rparr>
           \<and> badges s' size_ctrl = Some m \<and> calls s' = calls s \<and> nodes s' = nodes s"
proof -
  have nse: "ns = get_nodes_by_idx (nodes s) (selected_idx s)" by (simp add: ns_def)
  have mwe: "mw = Min (set (map (\<lambda>n. vx (node_size n)) ns))" by (simp add: mw_def)
  have mhe: "mh = Min (set (map (\<lambda>n. vy (node_size n)) ns))" by (simp add: mh_def)
  from below consider
    (single) "length ns = 1" "w < min_node_width E \<or> h < min_node_height E"
  | (multi) "2 \<le> length ns" "bounding_rect s = Some br" "mw \<noteq> 0" "mh \<noteq> 0"
      "w < vx (rsize br) * (min_node_width E / mw)
         \<or> h < vy (rsize br) * (min_node_height E / mh)"
    by blast
  then show ?thesis
  proof cases
  case single
  note one = single(1) and lt = single(2)
  from one obtain n where n: "get_nodes_by_idx (nodes s) (selected_idx s) = [n]"
    unfolding ns_def by (cases "get_nodes_by_idx (nodes s) (selected_idx s)") auto
  show ?thesis
    using lt unfolding OnSizeText_single [OF p n]
    by (simp add: SetValidationState_def)
next
  case multi
  note two = multi(1) and br = multi(2) and nz = multi(3,4) and lt = multi(5)
  have len: "length ns \<noteq> 1" and ne: "ns \<noteq> []" using two by auto
  show ?thesis
    using lt nz br
    unfolding OnSizeText_multi [OF p nse len ne mwe mhe]
    by (simp add: SetValidationState_def elem_mul_def Let_def)
  qed
qed

theorem size_below_minimum_rejected_witness:
  "parse_num_pair (py_float example_env) ''5,5'' = Some (5, 5)
   \<and> length (get_nodes_by_idx (nodes example_single_form) (selected_idx example_single_form)) = 1
   \<and> 5 < min_node_width example_env
   \<and> (\<exists>m. OnSizeText example_env example_single_form ''5,5''
            = Returned (example_single_form\<lparr>badges := (badges example_single_form)(size_ctrl := Some m)\<rparr>))
   \<and> calls (state_of (OnSizeText example_env example_single_form ''5,5'')) = []
   \<and> parse_num_pair (py_float example_env) ''20,20'' = Some (20, 20)
   \<and> map node_size (get_nodes_by_idx (nodes example_multi_form) (selected_idx example_multi_form))
       = [Vec2 10 10, Vec2 10 10]
   \<and> bounding_rect example_multi_form = Some (Rect (Vec2 0 0) (Vec2 30 30))
   \<and> (20::real) < 30 * (min_node_width example_env / 10)
   \<and> (\<exists>m. OnSizeText example_env example_multi_form ''20,20''
            = Returned (example_multi_form\<lparr>badges := (badges example_multi_form)(size_ctrl := Some m)\<rparr>))
   \<and> calls (state_of (OnSizeText example_env example_multi_form ''20,20'')) = []"
proof -
  have p: "parse_num_pair (py_float example_env) ''5,5'' = Some (5, 5)"
    by (simp add: example_defs parse_defs Let_def)
  have l: "length (get_nodes_by_idx (nodes example_single_form)
                     (selected_idx example_single_form)) = 1"
    by (simp add: example_defs get_nodes_by_idx_def)
  have b: "5 < min_node_width example_env"
    by (simp add: example_defs)
  from l b have pre: "(length (get_nodes_by_idx (nodes example_single_form)
                     (selected_idx example_single_form)) = 1
       \<and> (5 < min_node_width example_env \<or> 5 < min_node_height example_env))
     \<or> (2 \<le> length (get_nodes_by_idx (nodes example_single_form)
                     (selected_idx example_single_form))
         \<and> bounding_rect example_single_form = Some (Rect (Vec2 0 0) (Vec2 0 0))
         \<and> Min (set (map (\<lambda>n. vx (node_size n)) (get_nodes_by_idx (nodes example_single_form)
                     (selected_idx example_single_form)))) \<noteq> 0
         \<and> Min (set (map (\<lambda>n. vy (node_size n)) (get_nodes_by_idx (nodes example_single_form)
                     (selected_idx example_single_form)))) \<noteq> 0
         \<and> (5 < vx (rsize (Rect (Vec2 0 0) (Vec2 0 0))) * (min_node_width example_env /
                Min (set (map (\<lambda>n. vx (node_size n)) (get_nodes_by_idx (nodes example_single_form)
                     (selected_idx example_single_form)))))
            \<or> 5 < vy (rsize (Rect (Vec2 0 0) (Vec2 0 0))) * (min_node_height example_env /
                Min (set (map (\<lambda>n. vy (node_size n)) (get_nodes_by_idx (nodes example_single_form)
                     (selected_idx example_single_form)))))))"
    by blast
  from size_below_minimum_rejected [OF p pre]
  obtain m s' where r: "OnSizeText example_env example_single_form ''5,5'' = Returned s'"
    and s': "s' = example_single_form\<lparr>badges := (badges example_single_form)(size_ctrl := Some m)\<rparr>"
    and c: "calls s' = calls example_single_form"
    by blast
  have one: "calls (state_of (OnSizeText example_env example_single_form ''5,5'')) = []"
    unfolding r state_simps c by (simp add: example_defs)
  have one': "\<exists>m. OnSizeText example_env example_single_form ''5,5''
            = Returned (example_single_form\<lparr>badges := (badges example_single_form)(size_ctrl := Some m)\<rparr>)"
    using r s' by blast
  have p2: "parse_num_pair (py_float example_env) ''20,20'' = Some (20, 20)"
    by (simp add: example_defs parse_defs Let_def)
  have ns: "get_nodes_by_idx (nodes example_multi_form) (selected_idx example_multi_form)
            = [example_node 0 0 0 10 10, example_node 1 20 20 10 10]"
    by (simp add: example_defs get_nodes_by_idx_def)
  have sz: "map node_size (get_nodes_by_idx (nodes example_multi_form)
              (selected_idx example_multi_form)) = [Vec2 10 10, Vec2 10 10]"
    unfolding ns by (simp add: example_node_def)
  have br: "bounding_rect example_multi_form = Some (Rect (Vec2 0 0) (Vec2 30 30))"
    by (simp add: example_defs)
  have lt: "(20::real) < 30 * (min_node_width example_env / 10)"
    by (simp add: example_defs)
  have mw: "Min (set (map (\<lambda>n. vx (node_size n)) (get_nodes_by_idx (nodes example_multi_form)
              (selected_idx example_multi_form)))) = 10"
    and mh: "Min (set (map (\<lambda>n. vy (node_size n)) (get_nodes_by_idx (nodes example_multi_form)
              (selected_idx example_multi_form)))) = 10"
    unfolding ns by (simp_all add: example_node_def)
  have pre2: "(length (get_nodes_by_idx (nodes example_multi_form)
                     (selected_idx example_multi_form)) = 1
       \<and> (20 < min_node_width example_env \<or> 20 < min_node_height example_env))
     \<or> (2 \<le> length (get_nodes_by_idx (nodes example_multi_form)
                     (selected_idx example_multi_form))
         \<and> bounding_rect example_multi_form = Some (Rect (Vec2 0 0) (Vec2 30 30))
         \<and> Min (set (map (\<lambda>n. vx (node_size n)) (get_nodes_by_idx (nodes example_multi_form)
                     (selected_idx example_multi_form)))) \<noteq> 0
         \<and> Min (set (map (\<lambda>n. vy (node_size n)) (get_nodes_by_idx (nodes example_multi_form)
                     (selected_idx example_multi_form)))) \<noteq> 0
         \<and> (20 < vx (rsize (Rect (Vec2 0 0) (Vec2 30 30))) * (min_node_width example_env /
                Min (set (map (\<lambda>n. vx (node_size n)) (get_nodes_by_idx (nodes example_multi_form)
                     (selected_idx example_multi_form)))))
            \<or> 20 < vy (rsize (Rect (Vec2 0 0) (Vec2 30 30))) * (min_node_height example_env /
                Min (set (map (\<lambda>n. vy (node_size n)) (get_nodes_by_idx (nodes example_multi_form)
                     (selected_idx example_multi_form)))))))"
    unfolding mw mh using lt br unfolding ns by simp
  from size_below_minimum_rejected [OF p2 pre2]
  obtain m2 s2 where r2: "OnSizeText example_env example_multi_form ''20,20'' = Returned s2"
    and s2: "s2 = example_multi_form\<lparr>badges := (badges example_multi_form)(size_ctrl := Some m2)\<rparr>"
    and c2: "calls s2 = calls example_multi_form"
    by blast
  have two: "calls (state_of (OnSizeText example_env example_multi_form ''20,20'')) = []"
    unfolding r2 state_simps c2 by (simp add: example_defs)
  have two': "\<exists>m. OnSizeText example_env example_multi_form ''20,20''
            = Returned (example_multi_form\<lparr>badges := (badges example_multi_form)(size_ctrl := Some m)\<rparr>)"
    using r2 s2 by blast
  from p l b one' one p2 sz br lt two' two show ?thesis by blast
qed


text \<open>
  Claim C6, as stated: when a selected node has width or height zero, the resize of
  several nodes guards the input and never divides by zero.  There is no guard: with a
  node of width 0 selected, \<open>min_width / min_nw\<close> is evaluated with \<open>min_nw = 0\<close> and
  the handler ends with ZeroDivisionError.
\<close>

theorem zero_size_division_unguarded_counterexample:
  "get_nodes_by_idx (nodes example_zero_width_form) (selected_idx example_zero_width_form)
     = [example_node 0 0 0 0 10, example_node 1 20 20 10 10]
   \<and> OnSizeText example_env example_zero_width_form ''40,40''
       = Raised ZeroDivisionError example_zero_width_form"
proof -
  have p: "parse_num_pair (py_float example_env) ''40,40'' = Some (40, 40)"
    by (simp add: example_defs parse_defs Let_def)
  have ns: "get_nodes_by_idx (nodes example_zero_width_form)
              (selected_idx example_zero_width_form)
            = [example_node 0 0 0 0 10, example_node 1 20 20 10 10]"
    by (simp add: example_defs get_nodes_by_idx_def)
  have "OnSizeText example_env example_zero_width_form ''40,40''
       = Raised ZeroDivisionError example_zero_width_form"
    unfolding OnSizeText_def p ns
    by (simp add: Let_def py_min_def py_div_def example_node_def)
  with ns show ?thesis by simp
qed

text \<open>
  Claim C6, amended: when two or more nodes are selected, the size text parses, and some
  selected node has width zero while no selected width is negative (or the same for the
  heights), \<open>_OnSizeText\<close> raises ZeroDivisionError at the division by the smallest
  width or height.  The exception is not silent, and the form is left as it was: no
  validation error is shown and no Controller call is made.
\<close>

theorem zero_size_division_raises:
  fixes E :: env and s :: nodeform
  defines "ns \<equiv> get_nodes_by_idx (nodes s) (selected_idx s)"
  assumes p: "parse_num_pair (py_float E) text = Some (w, h)"
    and two: "2 \<le> length ns"
    and zero: "((\<exists>n \<in> set ns. vx (node_size n) = 0) \<and> (\<forall>n \<in> set ns. 0 \<le> vx (node_size n)))
             \<or> ((\<exists>n \<in> set ns. vy (node_size n) = 0) \<and> (\<forall>n \<in> set ns. 0 \<le> vy (node_size n)))"
  shows "OnSizeText E s text = Raised ZeroDivisionError s"
proof -
  have nse: "ns = get_nodes_by_idx (nodes s) (selected_idx s)" by (simp add: ns_def)
  have len: "length ns \<noteq> 1" and ne: "ns \<noteq> []" using two by auto
  have "Min (set (map (\<lambda>n. vx (node_size n)) ns)) = 0
      \<or> Min (set (map (\<lambda>n. vy (node_size n)) ns)) = 0"
    using zero
  proof (elim disjE conjE)
    assume "\<exists>n \<in> set ns. vx (node_size n) = 0" "\<forall>n \<in> set ns. 0 \<le> vx (node_size n)"
    then have "Min (set (map (\<lambda>n. vx (node_size n)) ns)) = 0"
      by (intro Min_zero) (auto simp: image_iff)
    then show ?thesis ..
  next
    assume "\<exists>n \<in> set ns. vy (node_size n) = 0" "\<forall>n \<in> set ns. 0 \<le> vy (node_size n)"
    then have "Min (set (map (\<lambda>n. vy (node_size n)) ns)) = 0"
      by (intro Min_zero) (auto simp: image_iff)
    then show ?thesis ..
  qed
  then show ?thesis
    unfolding OnSizeText_multi [OF p nse len ne refl refl] by simp
qed

theorem zero_size_division_raises_witness:
  "parse_num_pair (py_float example_env) ''40,40'' = Some (40, 40)
   \<and> 2 \<le> length (get_nodes_by_idx (nodes example_zero_width_form)
                      (selected_idx example_zero_width_form))
   \<and> map (\<lambda>n. vx (node_size n)) (get_nodes_by_idx (nodes example_zero_width_form)
                      (selected_idx example_zero_width_form)) = [0, 10]
   \<and> OnSizeText example_env example_zero_width_form ''40,40''
       = Raised ZeroDivisionError example_zero_width_form
   \<and> calls (state_of (OnSizeText example_env example_zero_width_form ''40,40'')) = []
   \<and> badges (state_of (OnSizeText example_env example_zero_width_form ''40,40'')) size_ctrl = None"
proof -
  have p: "parse_num_pair (py_float example_env) ''40,40'' = Some (40, 40)"
    by (simp add: example_defs parse_defs Let_def)
  have ns: "get_nodes_by_idx (nodes example_zero_width_form)
              (selected_idx example_zero_width_form)
            = [example_node 0 0 0 0 10, example_node 1 20 20 10 10]"
    by (simp add: example_defs get_nodes_by_idx_def)
  have two: "2 \<le> length (get_nodes_by_idx (nodes example_zero_width_form)
                      (selected_idx example_zero_width_form))"
    unfolding ns by simp
  have ex: "\<exists>n \<in> set (get_nodes_by_idx (nodes example_zero_width_form)
                      (selected_idx example_zero_width_form)). vx (node_size n) = 0"
    unfolding ns by (simp add: example_node_def)
  have all: "\<forall>n \<in> set (get_nodes_by_idx (nodes example_zero_width_form)
                      (selected_idx example_zero_width_form)). 0 \<le> vx (node_size n)"
    unfolding ns by (simp add: example_node_def)
  have r: "OnSizeText example_env example_zero_width_form ''40,40''
       = Raised ZeroDivisionError example_zero_width_form"
    using zero_size_division_raises [OF p two] ex all by blast
  have "calls (state_of (OnSizeText example_env example_zero_width_form ''40,40'')) = []"
    and "badges (state_of (OnSizeText example_env example_zero_width_form ''40,40'')) size_ctrl = None"
    unfolding r state_simps by (simp_all add: example_defs)
  moreover have "map (\<lambda>n. vx (node_size n)) (get_nodes_by_idx (nodes example_zero_width_form)
                      (selected_idx example_zero_width_form)) = [0, 10]"
    unfolding ns by (simp add: example_node_def)
  ultimately show ?thesis using p two r by blast
qed


lemma elem_div_Inr:
  "elem_div a b = Inr r \<Longrightarrow> vx b \<noteq> 0 \<and> vy b \<noteq> 0 \<and> r = Vec2 (vx a / vx b) (vy a / vy b)"
  by (auto simp: elem_div_def py_div_def split: if_splits)

lemma ratio_cancel:
  fixes a b r :: real
  assumes "b * r \<noteq> 0"
  shows "(a * r) / (b * r) = a / b"
  using assms by simp

text \<open>
  Claim C1: with two or more nodes selected and a proposed bounding size that passes
  validation, let \<open>ratio\<close> be the clamped size divided component-wise by the old
  bounding size.  When the clamped size differs from the old bounding size or from the
  proposed size, \<open>_OnSizeText\<close> issues, inside one \<open>start_group\<close>/\<open>end_group\<close> pair
  and for every selected node in order, \<open>move_node\<close> to
  \<open>origin + (position - origin) * ratio\<close> and \<open>set_node_size\<close> to \<open>size * ratio\<close>;
  otherwise it issues no call, and these formulas give back the old position and size.
  For two nodes \<open>a\<close> and \<open>b\<close>, the quotient of the new offsets from the origin equals
  the quotient of the old ones on each axis where the new offset of \<open>b\<close> is nonzero.
\<close>

theorem size_text_proportional_resize:
  fixes E :: env and s :: nodeform and w h :: real and br :: rect
  defines "ns \<equiv> get_nodes_by_idx (nodes s) (selected_idx s)"
  defines "clamped \<equiv> clamp_rect_size E (Rect (rpos br) (Vec2 w h)) (realsize E)"
  defines "ratio \<equiv> Vec2 (vx clamped / vx (rsize br)) (vy clamped / vy (rsize br))"
  defines "new_pos \<equiv> \<lambda>n. vec_add (rpos br) (elem_mul (vec_sub (position n) (rpos br)) ratio)"
  defines "new_size \<equiv> \<lambda>n. elem_mul (node_size n) ratio"
  assumes p: "parse_num_pair (py_float E) text = Some (w, h)"
    and two: "2 \<le> length ns"
    and br: "bounding_rect s = Some br"
    and ret: "returned (OnSizeText E s text)"
    and valid: "badges (state_of (OnSizeText E s text)) size_ctrl = None"
  shows "calls (state_of (OnSizeText E s text)) = calls s @
           (if rsize br \<noteq> clamped \<or> Vec2 w h \<noteq> clamped
            then [start_group]
                 @ concat (map (\<lambda>n. [move_node (net_index s) (index n) (new_pos n),
                                       set_node_size (net_index s) (index n) (new_size n)]) ns)
                 @ [end_group]
            else [])
       \<and> (rsize br = clamped \<and> vx (rsize br) \<noteq> 0 \<and> vy (rsize br) \<noteq> 0
            \<longrightarrow> new_pos a = position a \<and> new_size a = node_size a)
       \<and> (vx (vec_sub (new_pos b) (rpos br)) \<noteq> 0
            \<longrightarrow> vx (vec_sub (new_pos a) (rpos br)) / vx (vec_sub (new_pos b) (rpos br))
                = vx (vec_sub (position a) (rpos br)) / vx (vec_sub (position b) (rpos br)))
       \<and> (vy (vec_sub (new_pos b) (rpos br)) \<noteq> 0
            \<longrightarrow> vy (vec_sub (new_pos a) (rpos br)) / vy (vec_sub (new_pos b) (rpos br))
                = vy (vec_sub (position a) (rpos br)) / vy (vec_sub (position b) (rpos br)))"
proof (intro conjI impI)
  have nse: "ns = get_nodes_by_idx (nodes s) (selected_idx s)" by (simp add: ns_def)
  have len: "length ns \<noteq> 1" and ne: "ns \<noteq> []" using two by auto
  note eq = OnSizeText_multi [OF p nse len ne refl refl]
  show "calls (state_of (OnSizeText E s text)) = calls s @
           (if rsize br \<noteq> clamped \<or> Vec2 w h \<noteq> clamped
            then [start_group]
                 @ concat (map (\<lambda>n. [move_node (net_index s) (index n) (new_pos n),
                                       set_node_size (net_index s) (index n) (new_size n)]) ns)
                 @ [end_group]
            else [])"
  proof (cases "rsize br \<noteq> clamped \<or> Vec2 w h \<noteq> clamped")
    case False
    then show ?thesis
      using ret valid unfolding eq br clamped_def
      by (simp add: Let_def state_simps SetValidationState_def split: if_splits)
  next
    case True
    show ?thesis
    proof (cases "elem_div clamped (rsize br)")
      case (Inl e)
      then show ?thesis
        using True ret valid unfolding eq br clamped_def
        by (simp add: Let_def state_simps SetValidationState_def split: if_splits)
    next
      case (Inr r)
      from elem_div_Inr [OF Inr] have r: "r = ratio" unfolding ratio_def by simp
      have rc: "resize_calls (net_index s) br ratio
                = (\<lambda>n. [move_node (net_index s) (index n) (new_pos n),
                         set_node_size (net_index s) (index n) (new_size n)])"
        unfolding new_pos_def new_size_def by (rule ext) (simp add: resize_calls_def Let_def)
      show ?thesis
        using True Inr ret valid unfolding eq br
        by (simp add: Let_def state_simps SetValidationState_def controller_calls_def r rc
            clamped_def [symmetric] split: if_splits)
    qed
  qed
next
  assume a: "rsize br = clamped \<and> vx (rsize br) \<noteq> 0 \<and> vy (rsize br) \<noteq> 0"
  then have nz: "vx (rsize br) \<noteq> 0" "vy (rsize br) \<noteq> 0" by blast+
  from a have e: "clamped = rsize br" by simp
  have "ratio = Vec2 1 1" unfolding ratio_def e using nz by simp
  then show "new_pos a = position a" "new_size a = node_size a"
    unfolding new_pos_def new_size_def
    by (simp_all add: vec_add_def vec_sub_def elem_mul_def)
next
  assume "vx (vec_sub (new_pos b) (rpos br)) \<noteq> 0"
  then have "(vx (position b) - vx (rpos br)) * vx ratio \<noteq> 0"
    unfolding new_pos_def by (simp add: vec_add_def vec_sub_def elem_mul_def)
  from ratio_cancel [OF this, of "vx (position a) - vx (rpos br)"]
  show "vx (vec_sub (new_pos a) (rpos br)) / vx (vec_sub (new_pos b) (rpos br))
                = vx (vec_sub (position a) (rpos br)) / vx (vec_sub (position b) (rpos br))"
    unfolding new_pos_def by (simp add: vec_add_def vec_sub_def elem_mul_def)
next
  assume "vy (vec_sub (new_pos b) (rpos br)) \<noteq> 0"
  then have "(vy (position b) - vy (rpos br)) * vy ratio \<noteq> 0"
    unfolding new_pos_def by (simp add: vec_add_def vec_sub_def elem_mul_def)
  from ratio_cancel [OF this, of "vy (position a) - vy (rpos br)"]
  show "vy (vec_sub (new_pos a) (rpos br)) / vy (vec_sub (new_pos b) (rpos br))
                = vy (vec_sub (position a) (rpos br)) / vy (vec_sub (position b) (rpos br))"
    unfolding new_pos_def by (simp add: vec_add_def vec_sub_def elem_mul_def)
qed


theorem size_text_proportional_resize_witness:
  "parse_num_pair (py_float example_env) ''40,40'' = Some (40, 40)
   \<and> 2 \<le> length (get_nodes_by_idx (nodes example_multi_form) (selected_idx example_multi_form))
   \<and> bounding_rect example_multi_form = Some (Rect (Vec2 0 0) (Vec2 30 30))
   \<and> returned (OnSizeText example_env example_multi_form ''40,40'')
   \<and> badges (state_of (OnSizeText example_env example_multi_form ''40,40'')) size_ctrl = None
   \<and> calls (state_of (OnSizeText example_env example_multi_form ''40,40''))
       = [start_group,
          move_node 0 0 (Vec2 0 0), set_node_size 0 0 (Vec2 (40 / 3) (40 / 3)),
          move_node 0 1 (Vec2 (80 / 3) (80 / 3)), set_node_size 0 1 (Vec2 (40 / 3) (40 / 3)),
          end_group]"
proof -
  have p: "parse_num_pair (py_float example_env) ''40,40'' = Some (40, 40)"
    by (simp add: example_defs parse_defs Let_def)
  have ns: "get_nodes_by_idx (nodes example_multi_form) (selected_idx example_multi_form)
            = [example_node 0 0 0 10 10, example_node 1 20 20 10 10]"
    by (simp add: example_defs get_nodes_by_idx_def)
  have two: "2 \<le> length (get_nodes_by_idx (nodes example_multi_form)
                            (selected_idx example_multi_form))"
    unfolding ns by simp
  have br: "bounding_rect example_multi_form = Some (Rect (Vec2 0 0) (Vec2 30 30))"
    by (simp add: example_defs)
  have cl: "clamp_rect_size example_env (Rect (Vec2 0 0) (Vec2 40 40)) (realsize example_env)
            = Vec2 40 40"
    by (simp add: example_env_def spec_clamp_rect_size_def)
  have run_node: "returned (OnSizeText example_env example_multi_form ''40,40'')
     \<and> badges (state_of (OnSizeText example_env example_multi_form ''40,40'')) size_ctrl = None"
    unfolding OnSizeText_def p ns
    by (simp add: Let_def py_min_def py_div_def example_node_def br cl elem_mul_def
        elem_div_def state_simps SetValidationState_def controller_calls_def)
       (simp add: example_env_def)
  then have ret: "returned (OnSizeText example_env example_multi_form ''40,40'')"
    and valid: "badges (state_of (OnSizeText example_env example_multi_form ''40,40''))
                  size_ctrl = None"
    by blast+
  have "calls (state_of (OnSizeText example_env example_multi_form ''40,40''))
       = [start_group,
          move_node 0 0 (Vec2 0 0), set_node_size 0 0 (Vec2 (40 / 3) (40 / 3)),
          move_node 0 1 (Vec2 (80 / 3) (80 / 3)), set_node_size 0 1 (Vec2 (40 / 3) (40 / 3)),
          end_group]"
  proof -
    have c0: "calls example_multi_form = []" and n0: "net_index example_multi_form = 0"
      by (simp_all add: example_defs)
    note t = size_text_proportional_resize [OF p two br ret valid,
        of "example_node 0 0 0 10 10" "example_node 1 20 20 10 10", THEN conjunct1]
    show ?thesis
      unfolding t [unfolded ns rect.sel cl c0 n0]
      by (simp add: example_node_def vec_add_def vec_sub_def elem_mul_def)
  qed
  with p two br ret valid show ?thesis by blast
qed

section \<open>Edits that change nothing\<close>

lemmas form_updates = SetValidationState_def controller_calls_def post_event_def
  move_selected_def









section \<open>The echo flag\<close>

lemma flag_kept_simps:
  "flag_kept s (Returned s1) = (calls s1 = calls s \<or> self_changes s1)"
  "flag_kept s (Raised e s1) = (calls s1 = calls s \<or> self_changes s1)"
  by (simp_all add: flag_kept_def state_simps)

lemma OnIdText_flag: "flag_kept s (OnIdText s t ok)"
  by (simp add: OnIdText_def Let_def flag_kept_simps form_updates)

lemma OnPosText_flag: "flag_kept s (OnPosText E s t)"
  by (simp add: OnPosText_def Let_def flag_kept_simps form_updates split: option.split)

lemma OnSizeText_flag: "flag_kept s (OnSizeText E s t)"
  by (simp add: OnSizeText_def Let_def flag_kept_simps form_updates
      split: option.split sum.split)

lemma color_flags:
  "flag_kept s (OnFillColorChanged E s c)"
  "flag_kept s (OnBorderColorChanged E s c)"
  "flag_kept s (FillAlphaCallback s v)"
  "flag_kept s (BorderAlphaCallback s v)"
  "flag_kept s (BorderWidthCallback s v)"
  by (simp_all add: OnFillColorChanged_def OnBorderColorChanged_def FillAlphaCallback_def
      BorderAlphaCallback_def BorderWidthCallback_def Let_def flag_kept_simps form_updates)

lemma float_ctrl_flag:
  assumes cb: "\<And>v. flag_kept s (callback s v)"
  shows "flag_kept s (float_ctrl_fn f c lo hi li ri callback s t)"
proof (cases "f t")
  case None
  then show ?thesis by (simp add: float_ctrl_fn_def flag_kept_simps form_updates)
next
  case (Some v)
  show ?thesis
  proof (cases "callback s v")
    case (Returned s1)
    with cb [of v] have "calls s1 = calls s \<or> self_changes s1"
      by (simp add: flag_kept_simps)
    with Some Returned show ?thesis
      by (simp add: float_ctrl_fn_def Let_def flag_kept_simps form_updates)
  next
    case (Raised e s1)
    with cb [of v] have "calls s1 = calls s \<or> self_changes s1"
      by (simp add: flag_kept_simps)
    with Some Raised show ?thesis
      by (simp add: float_ctrl_fn_def Let_def flag_kept_simps form_updates)
  qed
qed

lemma reaction_flags:
  "flag_kept s (Reaction_OnIdText s t)"
  "flag_kept s (Reaction_OnRateLawText s t)"
  "flag_kept s (Reaction_OnFillColorChanged E s c)"
  "flag_kept s (Reaction_StrokeWidthCallback s v)"
  "flag_kept s (Reaction_FillAlphaCallback s v)"
  "flag_kept s (SetSrcStoich reai nodei s v)"
  "flag_kept s (SetDestStoich reai nodei s v)"
  by (simp_all add: Reaction_OnIdText_def Reaction_OnRateLawText_def
      Reaction_OnFillColorChanged_def Reaction_StrokeWidthCallback_def
      Reaction_FillAlphaCallback_def SetSrcStoich_def SetDestStoich_def Let_def
      flag_kept_simps form_updates)

lemma Compartment_OnIdText_calls: "calls (state_of (Compartment_OnIdText s t)) = calls s"
  by (simp add: Compartment_OnIdText_def state_simps form_updates)

text \<open>
  Each \<open>UpdateAllFields\<close> clears the flag and counts as one invocation, also when it
  raises, and makes no call to the Controller.
\<close>

lemma UpdateAllFields_node:
  "\<not> self_changes (state_of (UpdateAllFields E s))
   \<and> update_all_calls (state_of (UpdateAllFields E s)) = Suc (update_all_calls s)
   \<and> calls (state_of (UpdateAllFields E s)) = calls s"
  by (simp add: UpdateAllFields_def Let_def state_simps)

lemma UpdateAllFields_reaction:
  "\<not> self_changes (state_of (Reaction_UpdateAllFields s))
   \<and> update_all_calls (state_of (Reaction_UpdateAllFields s)) = Suc (update_all_calls s)
   \<and> calls (state_of (Reaction_UpdateAllFields s)) = calls s"
  by (simp add: Reaction_UpdateAllFields_def Let_def state_simps)

lemma UpdateAllFields_compartment:
  "\<not> self_changes (state_of (Compartment_UpdateAllFields s))
   \<and> update_all_calls (state_of (Compartment_UpdateAllFields s)) = Suc (update_all_calls s)
   \<and> calls (state_of (Compartment_UpdateAllFields s)) = calls s"
  by (simp add: Compartment_UpdateAllFields_def Let_def state_simps)

lemma Update_echo:
  "self_changes s \<Longrightarrow> Update U s = Returned (s\<lparr>badges := (\<lambda>c. None), self_changes := False\<rparr>)"
  by (simp add: Update_def)

lemma Update_calls:
  assumes "\<And>s. calls (state_of (U s)) = calls s"
  shows "calls (state_of (Update U s)) = calls s"
proof (cases "U s")
  case (Returned s1)
  with assms [of s] show ?thesis by (simp add: Update_def state_simps)
next
  case (Raised e s1)
  with assms [of s] show ?thesis by (simp add: Update_def state_simps)
qed

lemma Update_clears_flag:
  assumes "\<And>s. \<not> self_changes (state_of (U s))"
  shows "\<not> self_changes (state_of (Update U s))"
proof (cases "U s")
  case (Returned s1)
  then show ?thesis by (simp add: Update_def state_simps)
next
  case (Raised e s1)
  with assms [of s] show ?thesis by (simp add: Update_def state_simps)
qed

lemma Update_repopulates:
  assumes u: "\<And>s. update_all_calls (state_of (U s)) = Suc (update_all_calls s)"
    and sel: "selected_idx s \<noteq> {}" and flag: "\<not> self_changes s"
  shows "update_all_calls (state_of (Update U s)) = Suc (update_all_calls s)"
proof (cases "U s")
  case (Returned s1)
  with u [of s] sel flag show ?thesis by (simp add: Update_def state_simps)
next
  case (Raised e s1)
  with u [of s] sel flag show ?thesis by (simp add: Update_def state_simps)
qed

lemma Update_flag:
  assumes "\<And>s. calls (state_of (U s)) = calls s"
  shows "flag_kept s (Update U s)"
  using Update_calls [OF assms] by (simp add: flag_kept_def)

lemma handle_node_flag: "flag_kept s (handle_node E s e)"
  by (cases e)
     (simp_all add: OnIdText_flag OnPosText_flag OnSizeText_flag color_flags
        Update_flag UpdateAllFields_node
        OnFillAlphaText_def OnBorderAlphaText_def OnBorderWidthText_def float_ctrl_flag)

lemma handle_reaction_flag: "flag_kept s (handle_reaction E s e)"
  by (cases e)
     (simp_all add: reaction_flags Update_flag UpdateAllFields_reaction
        Reaction_OnStrokeWidthText_def Reaction_OnFillAlphaText_def
        Reaction_OnSrcStoichText_def Reaction_OnDestStoichText_def float_ctrl_flag)

lemma handle_compartment_calls: "calls (state_of (handle_compartment s e)) = calls s"
  by (cases e)
     (simp_all add: Compartment_OnIdText_calls Update_calls UpdateAllFields_compartment)

lemma echo_after_handler:
  assumes U: "\<And>s. \<not> self_changes (state_of (U s))
                 \<and> update_all_calls (state_of (U s)) = Suc (update_all_calls s)
                 \<and> calls (state_of (U s)) = calls s"
    and fk: "flag_kept s r"
  shows "(calls (state_of r) \<noteq> calls s
            \<longrightarrow> self_changes (state_of r) \<and> returned (Update U (state_of r))
                \<and> update_all_calls (state_of (Update U (state_of r)))
                    = update_all_calls (state_of r))
       \<and> \<not> self_changes (state_of (Update U (state_of r)))
       \<and> (selected_idx (state_of (Update U (state_of r))) \<noteq> {}
            \<longrightarrow> update_all_calls (state_of (Update U (state_of (Update U (state_of r)))))
                = Suc (update_all_calls (state_of (Update U (state_of r)))))"
proof (intro conjI impI)
  assume "calls (state_of r) \<noteq> calls s"
  with fk show f: "self_changes (state_of r)" by (simp add: flag_kept_def)
  from Update_echo [OF f, of U]
  show "returned (Update U (state_of r))"
    "update_all_calls (state_of (Update U (state_of r))) = update_all_calls (state_of r)"
    by (simp_all add: state_simps)
next
  show n: "\<not> self_changes (state_of (Update U (state_of r)))"
    using U by (intro Update_clears_flag) blast
  assume sel: "selected_idx (state_of (Update U (state_of r))) \<noteq> {}"
  show "update_all_calls (state_of (Update U (state_of (Update U (state_of r)))))
                = Suc (update_all_calls (state_of (Update U (state_of r))))"
    using U by (intro Update_repopulates [OF _ sel n]) blast
qed

text \<open>
  Claim C7: after any sequence of edits and refreshes on a node form or a reaction
  form, if a handler of the form makes a Controller call then \<open>_self_changes\<close> is set
  when it ends, and the next \<open>Update\<close> returns without invoking \<open>UpdateAllFields\<close>,
  whatever the selection; every \<open>Update\<close> leaves \<open>_self_changes\<close> false, so with a
  non-empty selection the \<open>Update\<close> after that one invokes \<open>UpdateAllFields\<close>.  The one
  handler of the compartment form never reaches its Controller call, so on a compartment
  form no refresh is an echo; \<open>Update\<close> behaves there in the same way.
\<close>

theorem echo_refresh_skips_repopulation:
  fixes E :: env
    and n0 :: nodeform and nes :: "node_event list" and ne :: node_event
    and r0 :: reactionform and res :: "reaction_event list" and re :: reaction_event
    and c0 :: compartmentform and ces :: "compartment_event list" and ce :: compartment_event
  defines "n1 \<equiv> run_node E n0 nes"
    and "n2 \<equiv> state_of (handle_node E (run_node E n0 nes) ne)"
    and "n3 \<equiv> state_of (Update (UpdateAllFields E)
                  (state_of (handle_node E (run_node E n0 nes) ne)))"
    and "r1 \<equiv> run_reaction E r0 res"
    and "r2 \<equiv> state_of (handle_reaction E (run_reaction E r0 res) re)"
    and "r3 \<equiv> state_of (Update Reaction_UpdateAllFields
                  (state_of (handle_reaction E (run_reaction E r0 res) re)))"
    and "c1 \<equiv> run_compartment c0 ces"
    and "c2 \<equiv> state_of (handle_compartment (run_compartment c0 ces) ce)"
    and "c3 \<equiv> state_of (Update Compartment_UpdateAllFields
                  (state_of (handle_compartment (run_compartment c0 ces) ce)))"
  shows "(calls n2 \<noteq> calls n1
            \<longrightarrow> self_changes n2 \<and> returned (Update (UpdateAllFields E) n2)
                \<and> update_all_calls n3 = update_all_calls n2)
       \<and> \<not> self_changes n3
       \<and> (selected_idx n3 \<noteq> {}
            \<longrightarrow> update_all_calls (state_of (Update (UpdateAllFields E) n3))
                = Suc (update_all_calls n3))
       \<and> (calls r2 \<noteq> calls r1
            \<longrightarrow> self_changes r2 \<and> returned (Update Reaction_UpdateAllFields r2)
                \<and> update_all_calls r3 = update_all_calls r2)
       \<and> \<not> self_changes r3
       \<and> (selected_idx r3 \<noteq> {}
            \<longrightarrow> update_all_calls (state_of (Update Reaction_UpdateAllFields r3))
                = Suc (update_all_calls r3))
       \<and> calls c2 = calls c1
       \<and> \<not> self_changes c3
       \<and> (selected_idx c3 \<noteq> {}
            \<longrightarrow> update_all_calls (state_of (Update Compartment_UpdateAllFields c3))
                = Suc (update_all_calls c3))"
proof -
  note n = echo_after_handler [where U = "UpdateAllFields E" and s = "run_node E n0 nes"
      and r = "handle_node E (run_node E n0 nes) ne",
      OF UpdateAllFields_node handle_node_flag]
  note r = echo_after_handler [where U = Reaction_UpdateAllFields
      and s = "run_reaction E r0 res" and r = "handle_reaction E (run_reaction E r0 res) re",
      OF UpdateAllFields_reaction handle_reaction_flag]
  have ck: "flag_kept (run_compartment c0 ces) (handle_compartment (run_compartment c0 ces) ce)"
    by (simp add: flag_kept_def handle_compartment_calls)
  note c = echo_after_handler [where U = Compartment_UpdateAllFields,
      OF UpdateAllFields_compartment ck]
  have cc: "calls c2 = calls c1"
    unfolding c2_def c1_def by (rule handle_compartment_calls)
  from n r c cc show ?thesis
    unfolding n1_def n2_def n3_def r1_def r2_def r3_def c1_def c2_def c3_def by blast
qed

theorem echo_refresh_skips_repopulation_witness:
  "calls (state_of (handle_node example_env (run_node example_env example_multi_form [Ev_refresh])
                      (Ev_fill_color BLACK)))
     \<noteq> calls (run_node example_env example_multi_form [Ev_refresh])
   \<and> selected_idx (state_of (Update (UpdateAllFields example_env)
         (state_of (handle_node example_env (run_node example_env example_multi_form [Ev_refresh])
                      (Ev_fill_color BLACK))))) \<noteq> {}
   \<and> update_all_calls (run_node example_env example_multi_form [Ev_refresh]) = 1
   \<and> update_all_calls (state_of (Update (UpdateAllFields example_env)
         (state_of (handle_node example_env (run_node example_env example_multi_form [Ev_refresh])
                      (Ev_fill_color BLACK))))) = 1
   \<and> update_all_calls (state_of (Update (UpdateAllFields example_env)
         (state_of (Update (UpdateAllFields example_env)
         (state_of (handle_node example_env (run_node example_env example_multi_form [Ev_refresh])
                      (Ev_fill_color BLACK))))))) = 2
   \<and> calls (state_of (handle_reaction example_env (run_reaction example_env example_reaction_form [])
                      (REv_ratelaw_text ''k2'')))
     \<noteq> calls (run_reaction example_env example_reaction_form [])
   \<and> selected_idx (state_of (Update Reaction_UpdateAllFields
         (state_of (handle_reaction example_env (run_reaction example_env example_reaction_form [])
                      (REv_ratelaw_text ''k2''))))) \<noteq> {}
   \<and> update_all_calls (state_of (Update Reaction_UpdateAllFields
         (state_of (handle_reaction example_env (run_reaction example_env example_reaction_form [])
                      (REv_ratelaw_text ''k2''))))) = 0
   \<and> update_all_calls (state_of (Update Reaction_UpdateAllFields
         (state_of (Update Reaction_UpdateAllFields
         (state_of (handle_reaction example_env (run_reaction example_env example_reaction_form [])
                      (REv_ratelaw_text ''k2''))))))) = 1
   \<and> calls (state_of (handle_compartment (run_compartment example_compartment_form [])
                      (CEv_id_text ''c1''))) = []
   \<and> selected_idx (state_of (Update Compartment_UpdateAllFields
         (state_of (handle_compartment (run_compartment example_compartment_form [])
                      (CEv_id_text ''c1''))))) \<noteq> {}
   \<and> update_all_calls (state_of (Update Compartment_UpdateAllFields
         (state_of (Update Compartment_UpdateAllFields
         (state_of (handle_compartment (run_compartment example_compartment_form [])
                      (CEv_id_text ''c1''))))))) = 2"
proof -
  define n1 where "n1 = run_node example_env example_multi_form [Ev_refresh]"
  define n2 where "n2 = state_of (handle_node example_env n1 (Ev_fill_color BLACK))"
  define n3 where "n3 = state_of (Update (UpdateAllFields example_env) n2)"
  define r1 where "r1 = run_reaction example_env example_reaction_form []"
  define r2 where "r2 = state_of (handle_reaction example_env r1 (REv_ratelaw_text ''k2''))"
  define r3 where "r3 = state_of (Update Reaction_UpdateAllFields r2)"
  define c1 where "c1 = run_compartment example_compartment_form []"
  define c2 where "c2 = state_of (handle_compartment c1 (CEv_id_text ''c1''))"
  define c3 where "c3 = state_of (Update Compartment_UpdateAllFields c2)"
  note t = echo_refresh_skips_repopulation [of example_env example_multi_form "[Ev_refresh]"
      "Ev_fill_color BLACK" example_reaction_form "[]" "REv_ratelaw_text ''k2''"
      example_compartment_form "[]" "CEv_id_text ''c1''",
      folded n1_def r1_def c1_def, folded n2_def r2_def c2_def, folded n3_def r3_def c3_def]
  have n1s: "selected_idx n1 = {0, 1}" and n1c: "update_all_calls n1 = 1"
    unfolding n1_def
    by (simp_all add: Update_def UpdateAllFields_def Let_def state_simps example_defs)
  have nch: "calls n2 \<noteq> calls n1"
    unfolding n2_def
    by (simp add: OnFillColorChanged_def Let_def state_simps controller_calls_def)
  have n2c: "update_all_calls n2 = 1" and n2s: "selected_idx n2 = {0, 1}"
    unfolding n2_def using n1c n1s
    by (simp_all add: OnFillColorChanged_def Let_def state_simps controller_calls_def)
  from t nch have n2f: "self_changes n2" and n3c: "update_all_calls n3 = 1"
    using n2c by simp_all
  have n3s: "selected_idx n3 \<noteq> {}"
    unfolding n3_def Update_echo [OF n2f] using n2s by (simp add: state_simps)
  from t n3s n3c
  have n4c: "update_all_calls (state_of (Update (UpdateAllFields example_env) n3)) = 2"
    by simp
  have r1e: "r1 = example_reaction_form" unfolding r1_def by simp
  have r2e: "calls r2 = [set_reaction_ratelaw 0 0 ''k2'']" "update_all_calls r2 = 0"
    "selected_idx r2 = {0}"
    unfolding r2_def r1e
    by (simp_all add: Reaction_OnRateLawText_def state_simps controller_calls_def
        example_reaction_form_def)
  have rch: "calls r2 \<noteq> calls r1"
    unfolding r2e r1e by (simp add: example_reaction_form_def)
  from t rch have r2f: "self_changes r2" and r3c: "update_all_calls r3 = 0"
    using r2e by simp_all
  have r3s: "selected_idx r3 \<noteq> {}"
    unfolding r3_def Update_echo [OF r2f] using r2e by (simp add: state_simps)
  from t r3s r3c
  have r4c: "update_all_calls (state_of (Update Reaction_UpdateAllFields r3)) = 1"
    by simp
  have c1e: "c1 = example_compartment_form" unfolding c1_def by simp
  have c2e: "c2 = example_compartment_form"
    unfolding c2_def c1e
    by (simp add: Compartment_OnIdText_def state_simps example_compartment_form_def)
  have c2c: "calls c2 = []" unfolding c2e by (simp add: example_compartment_form_def)
  have c3e: "selected_idx c3 = {0}" "update_all_calls c3 = 1"
    unfolding c3_def c2e
    by (simp_all add: Update_def Compartment_UpdateAllFields_def selected_compartments_def
        Let_def state_simps example_compartment_form_def)
  then have c3s: "selected_idx c3 \<noteq> {}" by simp
  from t c3s c3e
  have c4c: "update_all_calls (state_of (Update Compartment_UpdateAllFields c3)) = 2"
    by simp
  from nch n3s n1c n3c n4c rch r3s r3c r4c c2c c3s c4c show ?thesis
    unfolding n1_def n2_def n3_def r1_def r2_def r3_def c1_def c2_def c3_def by blast
qed

end
